theory Spec2Isabelle
  imports Main
begin

section \<open>Data model of config/config.go\<close>

subsection \<open>Plugin configuration\<close>

text \<open>
  The structs \<^verbatim>\<open>RulesConfig\<close>, \<^verbatim>\<open>ExclusionsConfig\<close>, \<^verbatim>\<open>LintersConfig\<close> and
  \<^verbatim>\<open>PluginConfig\<close>. The fields of \<^verbatim>\<open>RulesConfig\<close> carry the prefix \<open>Rule\<close> because
  \<^verbatim>\<open>Linters\<close> and \<^verbatim>\<open>Path\<close> are also fields of other structs.
\<close>

record RulesConfig =
  RuleLinters :: "string list"
  RulePath :: string
  RulePathExcept :: string
  RuleText :: string
  RuleSource :: string

text \<open>
  A Go value of type \<^verbatim>\<open>any\<close> as it is handed to a patch operation: a string, an integer, a
  boolean, a \<^verbatim>\<open>RulesConfig\<close>, a slice, a \<^verbatim>\<open>yaml.MapSlice\<close> (ordered, keys of type
  \<^verbatim>\<open>any\<close>) or a \<^verbatim>\<open>map[string]any\<close>.
\<close>

datatype goval =
    GoNil
  | GoString string
  | GoInt int
  | GoBool bool
  | GoRule RulesConfig
  | GoSlice "goval list"
  | GoMapSlice "(goval \<times> goval) list"
  | GoMap "(string \<times> goval) list"

record ExclusionsConfig =
  Rules :: "RulesConfig list"
  Paths :: "string list"
  PathsExcept :: "string list"

record LintersConfig =
  Enable :: "string list"
  Disable :: "string list"
  Settings :: "(goval \<times> goval) list"
  Exclusions :: ExclusionsConfig

record PluginConfig =
  Linters :: LintersConfig

subsection \<open>Patch operations\<close>

datatype OperationType = OperationAdd | OperationReplace

record Operation =
  Type :: OperationType
  Path :: "string list"
  Value :: goval

type_synonym Patch = "Operation list"

subsection \<open>Errors\<close>

text \<open>
  An error of one of the two YAML libraries. \<open>ErrNotFoundNode\<close> is the sentinel
  \<^verbatim>\<open>yaml.ErrNotFoundNode\<close> that \<^verbatim>\<open>errors.Is\<close> recognises; every other library error is
  \<open>ErrOther\<close> with its message.
\<close>

datatype liberr = ErrNotFoundNode | ErrOther string

text \<open>
  The errors that config.go builds, one constructor per message, and the two panics it can
  raise (\<^verbatim>\<open>MustParsePath\<close> and an index out of range).
\<close>

datatype error =
    Lib liberr
  | FailedToParseYamlPath string error
  | FailedToReadNode error
  | PathNeedsSegment string
  | MapKeyNotString goval nat
  | FailedToCheckVersion error
  | FailedToAddVersion error
  | FailedToCreatePatch string error
  | FailedToApplyPatch string error
  | PanicMustParsePath string liberr
  | PanicIndexOutOfRange int

fun isPanic :: "error \<Rightarrow> bool" where
  "isPanic (PanicMustParsePath p e) = True"
| "isPanic (PanicIndexOutOfRange i) = True"
| "isPanic e = False"

text \<open>
  \<^verbatim>\<open>errors.Wrapf(err, ...)\<close>: wraps an error value. A panic is not an error value, it
  unwinds through the caller unchanged.
\<close>

definition Wrapf :: "(error \<Rightarrow> error) \<Rightarrow> error \<Rightarrow> error" where
  "Wrapf msg err = (if isPanic err then err else msg err)"

subsection \<open>The external YAML libraries\<close>

text \<open>
  config.go calls four functions of two libraries that are not part of the repository:
  \<^verbatim>\<open>yaml.PathString\<close> and \<^verbatim>\<open>(*yaml.Path).ReadNode\<close> of goccy/go-yaml,
  \<^verbatim>\<open>yamlpatch.ParsePath\<close> and \<^verbatim>\<open>goccyyamlpatcher.New().Apply\<close> of palantir/pkg.
  They are parameters of the embedding: \<open>'d\<close> is the document (the YAML bytes), \<open>'p\<close> a
  parsed goccy path, \<open>'n\<close> an AST node (\<open>None\<close> is the nil node).
\<close>

record ('d, 'p, 'n) yamllib =
  PathString :: "string \<Rightarrow> liberr + 'p"
  ReadNode :: "'p \<Rightarrow> 'd \<Rightarrow> liberr + 'n option"
  ParsePath :: "string \<Rightarrow> liberr + string list"
  Apply :: "'d \<Rightarrow> Patch \<Rightarrow> liberr + 'd"

text \<open>\<^verbatim>\<open>yamlpatch.MustParsePath\<close>: \<^verbatim>\<open>ParsePath\<close> that panics on an error.\<close>

definition MustParsePath :: "('d, 'p, 'n) yamllib \<Rightarrow> string \<Rightarrow> error + string list" where
  "MustParsePath L str =
     (case ParsePath L str of
        Inl err \<Rightarrow> Inl (PanicMustParsePath str err)
      | Inr path \<Rightarrow> Inr path)"

subsection \<open>Two functions of Go's strings package\<close>

text \<open>\<^verbatim>\<open>strings.Split(s, sep)\<close> for a separator of one character.\<close>

fun Split :: "string \<Rightarrow> char \<Rightarrow> string list" where
  "Split [] sep = [[]]"
| "Split (c # cs) sep =
     (if c = sep then [] # Split cs sep
      else (case Split cs sep of
              [] \<Rightarrow> [[c]]
            | w # ws \<Rightarrow> (c # w) # ws))"

text \<open>\<^verbatim>\<open>strings.ReplaceAll(s, old, new)\<close> for \<open>old\<close> and \<open>new\<close> of one character.\<close>

definition ReplaceAll :: "string \<Rightarrow> char \<Rightarrow> char \<Rightarrow> string" where
  "ReplaceAll s old new = map (\<lambda>c. if c = old then new else c) s"

section \<open>The functions of config/config.go\<close>

subsection \<open>yamlPatchPathToGoccyPathString and checkNodeExists\<close>

definition yamlPatchPathToGoccyPathString :: "string \<Rightarrow> string" where
  "yamlPatchPathToGoccyPathString inp =
     ''$'' @ (if inp \<noteq> ''/'' then ReplaceAll inp (CHR ''/'') (CHR ''.'') else [])"

definition checkNodeExists :: "('d, 'p, 'n) yamllib \<Rightarrow> 'd \<Rightarrow> string \<Rightarrow> error + bool" where
  "checkNodeExists L yamlBytes yamlPath =
     (case PathString L (yamlPatchPathToGoccyPathString yamlPath) of
        Inl err \<Rightarrow> Inl (FailedToParseYamlPath yamlPath (Lib err))
      | Inr yPath \<Rightarrow>
          (case ReadNode L yPath yamlBytes of
             Inl err \<Rightarrow>
               (if err = ErrNotFoundNode then Inr False
                else Inl (FailedToReadNode (Lib err)))
           | Inr node \<Rightarrow> Inr (node \<noteq> None)))"

subsection \<open>createObjectsToAddForPath\<close>

text \<open>
  The loop of \<^verbatim>\<open>createObjectsToAddForPath\<close> counts \<^verbatim>\<open>idx\<close> down from
  \<^verbatim>\<open>len(segments)-1\<close> to 0; \<open>objectsLoop segments value (Suc idx) result\<close> is the state
  before the iteration at \<^verbatim>\<open>idx\<close>.
\<close>

fun objectsLoop :: "string list \<Rightarrow> goval \<Rightarrow> nat \<Rightarrow> goval list \<Rightarrow> goval list" where
  "objectsLoop segments val 0 result = result"
| "objectsLoop segments val (Suc idx) result =
     objectsLoop segments val idx
       (if idx = length segments - 1 then result @ [val]
        else GoMap [(segments ! (idx + 1), result ! 0)] # result)"

definition createObjectsToAddForPath :: "string \<Rightarrow> goval \<Rightarrow> goval list" where
  "createObjectsToAddForPath yamlPath val =
     (let segments = Split yamlPath (CHR ''/'')
      in objectsLoop segments val (length segments) [])"

subsection \<open>addOrSetYAMLPatch\<close>

text \<open>
  The loop over \<^verbatim>\<open>parsedPath\<close>: it returns \<^verbatim>\<open>pathSoFar\<close> and \<^verbatim>\<open>furthestExistingIdx\<close>,
  which stays -1 when the loop ends without a \<^verbatim>\<open>break\<close>.
\<close>

fun walkPath ::
  "('d, 'p, 'n) yamllib \<Rightarrow> 'd \<Rightarrow> string list \<Rightarrow> nat \<Rightarrow> string \<Rightarrow> error + (string \<times> int)" where
  "walkPath L yamlBytes [] idx pathSoFar = Inr (pathSoFar, - 1)"
| "walkPath L yamlBytes (part # rest) idx pathSoFar =
     (let pathSoFar' = (if idx = 1 then [] else pathSoFar) @ ''/'' @ part
      in case checkNodeExists L yamlBytes pathSoFar' of
           Inl err \<Rightarrow> Inl err
         | Inr nodeExists \<Rightarrow>
             (if nodeExists then walkPath L yamlBytes rest (idx + 1) pathSoFar'
              else Inr (pathSoFar', int idx)))"

definition addOrSetYAMLPatch ::
  "('d, 'p, 'n) yamllib \<Rightarrow> 'd \<Rightarrow> string \<Rightarrow> Patch \<Rightarrow> goval \<Rightarrow> error + Patch" where
  "addOrSetYAMLPatch L yamlBytes yamlPath setYAMLPatch val =
     (case ParsePath L yamlPath of
        Inl err \<Rightarrow> Inl (FailedToParseYamlPath yamlPath (Lib err))
      | Inr parsedPath \<Rightarrow>
          if length parsedPath \<le> 1 then Inl (PathNeedsSegment yamlPath)
          else
            (case checkNodeExists L yamlBytes yamlPath of
               Inl err \<Rightarrow> Inl err
             | Inr nodeExists \<Rightarrow>
                 if nodeExists then Inr setYAMLPatch
                 else
                   (let objectsToAdd = createObjectsToAddForPath yamlPath val
                    in case walkPath L yamlBytes parsedPath 0 [] of
                         Inl err \<Rightarrow> Inl err
                       | Inr (pathSoFar, furthestExistingIdx) \<Rightarrow>
                           (case MustParsePath L pathSoFar of
                              Inl err \<Rightarrow> Inl err
                            | Inr path \<Rightarrow>
                                if 0 \<le> furthestExistingIdx
                                   \<and> nat furthestExistingIdx < length objectsToAdd
                                then Inr [\<lparr>Type = OperationAdd, Path = path,
                                           Value = objectsToAdd ! nat furthestExistingIdx\<rparr>]
                                else Inl (PanicIndexOutOfRange furthestExistingIdx)))))"

subsection \<open>createSetYAMLMapValuePatch and createAddYAMLSlicePatch\<close>

fun setMapLoop ::
  "('d, 'p, 'n) yamllib \<Rightarrow> 'd \<Rightarrow> string \<Rightarrow> (goval \<times> goval) list \<Rightarrow> nat \<Rightarrow> Patch
     \<Rightarrow> error + Patch" where
  "setMapLoop L yamlBytes yamlPath [] idx setPatch = Inr setPatch"
| "setMapLoop L yamlBytes yamlPath ((key, val) # rest) idx setPatch =
     (case key of
        GoString mapItemKey \<Rightarrow>
          (let yamlPathToMapItem = yamlPath @ ''/'' @ mapItemKey
           in case checkNodeExists L yamlBytes yamlPathToMapItem of
                Inl err \<Rightarrow> Inl err
              | Inr nodeExists \<Rightarrow>
                  (case MustParsePath L yamlPathToMapItem of
                     Inl err \<Rightarrow> Inl err
                   | Inr path \<Rightarrow>
                       setMapLoop L yamlBytes yamlPath rest (idx + 1)
                         (setPatch @
                            [\<lparr>Type = (if nodeExists then OperationReplace else OperationAdd),
                              Path = path, Value = val\<rparr>])))
      | _ \<Rightarrow> Inl (MapKeyNotString key idx))"

definition createSetYAMLMapValuePatch ::
  "('d, 'p, 'n) yamllib \<Rightarrow> 'd \<Rightarrow> string \<Rightarrow> (goval \<times> goval) list \<Rightarrow> error + Patch" where
  "createSetYAMLMapValuePatch L yamlBytes yamlPath mapValue =
     (if length mapValue = 0 then Inr []
      else
        (case setMapLoop L yamlBytes yamlPath mapValue 0 [] of
           Inl err \<Rightarrow> Inl err
         | Inr setPatch \<Rightarrow>
             addOrSetYAMLPatch L yamlBytes yamlPath setPatch (GoMapSlice mapValue)))"

fun addSliceLoop ::
  "('d, 'p, 'n) yamllib \<Rightarrow> string \<Rightarrow> goval list \<Rightarrow> Patch \<Rightarrow> error + Patch" where
  "addSliceLoop L yamlPath [] setPatch = Inr setPatch"
| "addSliceLoop L yamlPath (linter # rest) setPatch =
     (case MustParsePath L (yamlPath @ ''/-'') of
        Inl err \<Rightarrow> Inl err
      | Inr path \<Rightarrow>
          addSliceLoop L yamlPath rest
            (setPatch @ [\<lparr>Type = OperationAdd, Path = path, Value = linter\<rparr>]))"

definition createAddYAMLSlicePatch ::
  "('d, 'p, 'n) yamllib \<Rightarrow> 'd \<Rightarrow> string \<Rightarrow> goval list \<Rightarrow> error + Patch" where
  "createAddYAMLSlicePatch L yamlBytes yamlPath slice =
     (if length slice = 0 then Inr []
      else
        (case addSliceLoop L yamlPath slice [] of
           Inl err \<Rightarrow> Inl err
         | Inr setPatch \<Rightarrow>
             addOrSetYAMLPatch L yamlBytes yamlPath setPatch (GoSlice slice)))"

subsection \<open>applyAddOrSetYAMLMapPatch and applyAddYAMLSlicePatch\<close>

definition applyAddOrSetYAMLMapPatch ::
  "('d, 'p, 'n) yamllib \<Rightarrow> 'd \<Rightarrow> string \<Rightarrow> (goval \<times> goval) list \<Rightarrow> error + 'd" where
  "applyAddOrSetYAMLMapPatch L yamlBytes yamlPath mapValue =
     (if length mapValue = 0 then Inr yamlBytes
      else
        (case createSetYAMLMapValuePatch L yamlBytes yamlPath mapValue of
           Inl err \<Rightarrow> Inl (Wrapf (FailedToCreatePatch yamlPath) err)
         | Inr addOrSetValuePatch \<Rightarrow>
             (case Apply L yamlBytes addOrSetValuePatch of
                Inl err \<Rightarrow> Inl (FailedToApplyPatch yamlPath (Lib err))
              | Inr applied \<Rightarrow> Inr applied)))"

definition applyAddYAMLSlicePatch ::
  "('d, 'p, 'n) yamllib \<Rightarrow> 'd \<Rightarrow> string \<Rightarrow> goval list \<Rightarrow> error + 'd" where
  "applyAddYAMLSlicePatch L yamlBytes yamlPath slice =
     (if length slice = 0 then Inr yamlBytes
      else
        (case createAddYAMLSlicePatch L yamlBytes yamlPath slice of
           Inl err \<Rightarrow> Inl (Wrapf (FailedToCreatePatch yamlPath) err)
         | Inr addSlicePatch \<Rightarrow>
             (case Apply L yamlBytes addSlicePatch of
                Inl err \<Rightarrow> Inl (FailedToApplyPatch yamlPath (Lib err))
              | Inr applied \<Rightarrow> Inr applied)))"

subsection \<open>MergePluginConfigWithConfig\<close>

text \<open>
  Lines 98 to 111 of \<^verbatim>\<open>MergePluginConfigWithConfig\<close>: if "version" is not set, set it
  to version 2. The result is the new value of \<^verbatim>\<open>configBytes\<close>.
\<close>

definition versionDefault :: "('d, 'p, 'n) yamllib \<Rightarrow> 'd \<Rightarrow> error + 'd" where
  "versionDefault L configBytes =
     (case checkNodeExists L configBytes ''/version'' of
        Inl err \<Rightarrow> Inl (Wrapf FailedToCheckVersion err)
      | Inr exists \<Rightarrow>
          if \<not> exists then
            (case MustParsePath L ''/version'' of
               Inl err \<Rightarrow> Inl err
             | Inr path \<Rightarrow>
                 (case Apply L configBytes
                         [\<lparr>Type = OperationAdd, Path = path, Value = GoString ''2''\<rparr>] of
                    Inl err \<Rightarrow> Inl (Wrapf FailedToAddVersion (Lib err))
                  | Inr applied \<Rightarrow> Inr applied))
          else Inr configBytes)"

text \<open>
  The function returns the Go pair \<^verbatim>\<open>(GolangCILintConfig, error)\<close>; \<open>None\<close> is \<^verbatim>\<open>nil\<close>.
  Each \<^verbatim>\<open>return\<close> statement of the source is one pair below.
\<close>

definition MergePluginConfigWithConfig ::
  "('d, 'p, 'n) yamllib \<Rightarrow> 'd \<Rightarrow> PluginConfig option \<Rightarrow> 'd option \<times> error option" where
  "MergePluginConfigWithConfig L configBytes cfg =
     (case versionDefault L configBytes of
        Inl err \<Rightarrow> (None, Some err)
      | Inr configBytes' \<Rightarrow>
     (case cfg of
        None \<Rightarrow> (Some configBytes', None)
      | Some c \<Rightarrow>
     (case applyAddYAMLSlicePatch L configBytes' ''/linters/enable''
             (map GoString (Enable (Linters c))) of
        Inl err \<Rightarrow> (None, Some err)
      | Inr applied1 \<Rightarrow>
     (case applyAddYAMLSlicePatch L applied1 ''/linters/disable''
             (map GoString (Disable (Linters c))) of
        Inl err \<Rightarrow> (None, Some err)
      | Inr applied2 \<Rightarrow>
     (case applyAddOrSetYAMLMapPatch L applied2 ''/linters/settings''
             (Settings (Linters c)) of
        Inl err \<Rightarrow> (None, Some err)
      | Inr applied3 \<Rightarrow>
     (case applyAddYAMLSlicePatch L applied3 ''/linters/exclusions/rules''
             (map GoRule (Rules (Exclusions (Linters c)))) of
        Inl err \<Rightarrow> (None, Some err)
      | Inr applied4 \<Rightarrow>
     (case applyAddYAMLSlicePatch L applied4 ''/linters/exclusions/paths''
             (map GoString (Paths (Exclusions (Linters c)))) of
        Inl err \<Rightarrow> (None, Some err)
      | Inr applied5 \<Rightarrow>
     (case applyAddYAMLSlicePatch L applied5 ''/linters/exclusions/paths-except''
             (map GoString (PathsExcept (Exclusions (Linters c)))) of
        Inl err \<Rightarrow> (None, Some err)
      | Inr applied6 \<Rightarrow> (Some applied6, None)))))))))"

section \<open>A reference model of the YAML libraries\<close>

text \<open>
  Modelled from the spec: the document, the node existence lookup (\<section>4.1), the
  structured path syntax (\<section>6) and the patch applier (\<section>4.5). These are the
  libraries goccy/go-yaml and palantir/pkg/yamlpatch, whose code is not in the repository.
  A document is its tree of nodes; comments and layout of the bytes are not represented.
  \<open>None\<close> is the empty document, which has no root node. A mapping or sequence node
  stands for a collection written in block style; the empty mapping, which YAML writes as
  \<open>{}\<close>, is \<open>NMap []\<close>. The key of an entry that is written as a scalar is the
  \<open>NString\<close> of its text, which is what the selectors of a path are compared with. Where
  the specification is silent or the libraries are known to answer otherwise (a read below
  a node that is not a mapping, an \<^verbatim>\<open>Add\<close> at a key that exists or into the empty
  mapping), the model follows the libraries.
\<close>

datatype node =
    NNull
  | NString string
  | NInt int
  | NBool bool
  | NSeq "node list"
  | NMap "(node \<times> node) list"

text \<open>
  Modelled from the spec: the path string of goccy/go-yaml, as the comment of
  \<^verbatim>\<open>yamlPatchPathToGoccyPathString\<close> shows it (\<open>$.path.to.node\<close>): \<open>$\<close> followed by
  \<open>.name\<close> selectors. It is malformed when it does not start with \<open>$\<close> or a selector
  is empty. The library has more syntax, which is not modelled: after a dot it rejects
  \<open>$\<close> and \<open>*\<close>, it reads brackets as an index and a doubled dot as its recursive
  selector, and a quote starts a quoted name. The model is the library on selectors
  without these characters.
\<close>

definition refPathString :: "string \<Rightarrow> liberr + string list" where
  "refPathString s =
     (case s of
        [] \<Rightarrow> Inl (ErrOther ''invalid path string'')
      | c # rest \<Rightarrow>
          if c \<noteq> CHR ''$'' then Inl (ErrOther ''invalid path string'')
          else if rest = [] then Inr []
          else if hd rest \<noteq> CHR ''.'' then Inl (ErrOther ''invalid path string'')
          else if [] \<in> set (Split (tl rest) (CHR ''.''))
               then Inl (ErrOther ''invalid path string'')
          else Inr (Split (tl rest) (CHR ''.'')))"

text \<open>
  Modelled from the spec: the node that a list of segments resolves to below a node
  (\<section>4.1). A segment finds the value of that key in a mapping; below anything else
  there is no node. This is the notion the properties are stated with; what the library's
  read reports is \<open>readPath\<close> below.
\<close>

fun lookupNode :: "string list \<Rightarrow> node \<Rightarrow> node option" where
  "lookupNode [] n = Some n"
| "lookupNode (s # ss) (NMap kvs) =
     (case map_of kvs (NString s) of
        None \<Rightarrow> None
      | Some v \<Rightarrow> lookupNode ss v)"
| "lookupNode (s # ss) n = None"

text \<open>
  Modelled from the spec: the read of a list of selectors below a node, as the selectors
  of goccy/go-yaml filter a node. In a mapping a selector continues at the value of its
  key and finds nothing (\<open>Inr None\<close>) when the mapping has no such key. A selector
  applied to a node that is not a mapping (a scalar, a null or a sequence) is the
  library's invalid query, an error other than \<^verbatim>\<open>ErrNotFoundNode\<close>; the specification
  (\<section>4.1) is silent about this case.
\<close>

fun readPath :: "string list \<Rightarrow> node \<Rightarrow> liberr + node option" where
  "readPath [] n = Inr (Some n)"
| "readPath (s # ss) (NMap kvs) =
     (case map_of kvs (NString s) of
        None \<Rightarrow> Inr None
      | Some v \<Rightarrow> readPath ss v)"
| "readPath (s # ss) n = Inl (ErrOther ''invalid query'')"

text \<open>
  Modelled from the spec: \<^verbatim>\<open>ReadNode\<close> fails with \<^verbatim>\<open>ErrNotFoundNode\<close> when the document
  is empty or the selectors find nothing, fails with the invalid query when a selector
  meets a node that is not a mapping, and returns the node otherwise (a present null node
  included).
\<close>

definition refReadNode :: "string list \<Rightarrow> node option \<Rightarrow> liberr + node option" where
  "refReadNode yPath doc =
     (case doc of
        None \<Rightarrow> Inl ErrNotFoundNode
      | Some root \<Rightarrow>
          (case readPath yPath root of
             Inl err \<Rightarrow> Inl err
           | Inr None \<Rightarrow> Inl ErrNotFoundNode
           | Inr (Some n) \<Rightarrow> Inr (Some n)))"

text \<open>
  Modelled from the spec: a structured path string is \<open>/\<close>-delimited and starts with
  \<open>/\<close>; the root is \<open>/\<close>. The parsed path starts with the empty root segment (the
  comment in \<^verbatim>\<open>addOrSetYAMLPatch\<close> describes it so): \<open>/a/b\<close> has the three segments
  empty, \<open>a\<close>, \<open>b\<close>, and the root has the empty segment alone. The library decodes
  the escapes \<open>~0\<close> and \<open>~1\<close> of JSON pointers in a segment; the model does not, it is
  the library on paths without a tilde.
\<close>

definition refParsePath :: "string \<Rightarrow> liberr + string list" where
  "refParsePath str =
     (if str = ''/'' then Inr [[]]
      else if str \<noteq> [] \<and> hd str = CHR ''/'' then Inr (Split str (CHR ''/''))
      else Inl (ErrOther ''path must begin with leading slash''))"

text \<open>
  Modelled from the spec: the YAML node a Go value is written as. A \<^verbatim>\<open>RulesConfig\<close>
  is a mapping of its non-empty fields under their yaml tags (all are \<^verbatim>\<open>omitempty\<close>).
\<close>

definition marshalRule :: "RulesConfig \<Rightarrow> node" where
  "marshalRule r =
     NMap ((if RuleLinters r = [] then []
            else [(NString ''linters'', NSeq (map NString (RuleLinters r)))])
         @ (if RulePath r = [] then [] else [(NString ''path'', NString (RulePath r))])
         @ (if RulePathExcept r = [] then []
            else [(NString ''path-except'', NString (RulePathExcept r))])
         @ (if RuleText r = [] then [] else [(NString ''text'', NString (RuleText r))])
         @ (if RuleSource r = [] then [] else [(NString ''source'', NString (RuleSource r))]))"

text \<open>
  Modelled from the spec: the node of a Go value. Slices are sequences, a
  \<^verbatim>\<open>yaml.MapSlice\<close> and a Go map are mappings with their entries in order.
\<close>

fun marshal :: "goval \<Rightarrow> node" where
  "marshal GoNil = NNull"
| "marshal (GoString s) = NString s"
| "marshal (GoInt i) = NInt i"
| "marshal (GoBool b) = NBool b"
| "marshal (GoRule r) = marshalRule r"
| "marshal (GoSlice xs) = NSeq (map marshal xs)"
| "marshal (GoMapSlice kvs) = NMap (map (\<lambda>kv. (marshal (fst kv), marshal (snd kv))) kvs)"
| "marshal (GoMap kvs) = NMap (map (\<lambda>kv. (NString (fst kv), marshal (snd kv))) kvs)"

text \<open>
  Modelled from the spec: the entry of a mapping is overwritten in place when the key is
  present, and appended after the last entry when it is not.
\<close>

fun setEntry :: "node \<Rightarrow> node \<Rightarrow> (node \<times> node) list \<Rightarrow> (node \<times> node) list" where
  "setEntry k v [] = [(k, v)]"
| "setEntry k v (kv # kvs) = (if fst kv = k then (k, v) # kvs else kv # setEntry k v kvs)"

text \<open>
  Modelled from the spec: \<^verbatim>\<open>Add\<close> below a node, at the segments that follow the root.
  On a sequence the append sentinel \<open>-\<close> inserts at the tail; on a mapping the key is
  created after the last entry. Every parent on the way must exist. The applier of
  palantir/pkg does not set an existing key through \<^verbatim>\<open>Add\<close>, it rejects the operation;
  and it does not complete an \<^verbatim>\<open>Add\<close> into the empty mapping \<open>{}\<close> (the library panics
  there), which this model reports as a failure of the operation.
\<close>

fun addAt :: "string list \<Rightarrow> node \<Rightarrow> node \<Rightarrow> liberr + node" where
  "addAt [] v n = Inr v"
| "addAt [k] v (NMap kvs) =
     (if kvs = [] then Inl (ErrOther ''add: empty mapping'')
      else if map_of kvs (NString k) \<noteq> None then Inl (ErrOther ''add: key exists'')
      else Inr (NMap (kvs @ [(NString k, v)])))"
| "addAt [k] v (NSeq xs) =
     (if k = ''-'' then Inr (NSeq (xs @ [v])) else Inl (ErrOther ''add: unsupported index''))"
| "addAt (k # ks) v (NMap kvs) =
     (case map_of kvs (NString k) of
        None \<Rightarrow> Inl (ErrOther ''add: parent does not exist'')
      | Some child \<Rightarrow>
          (case addAt ks v child of
             Inl err \<Rightarrow> Inl err
           | Inr child' \<Rightarrow> Inr (NMap (setEntry (NString k) child' kvs))))"
| "addAt (k # ks) v n = Inl (ErrOther ''add: parent is not a mapping'')"

text \<open>
  Modelled from the spec: \<^verbatim>\<open>Replace\<close> overwrites the value of an existing node in place
  and fails when the path does not exist. Elements of a sequence are not addressed by
  index in this model.
\<close>

fun replaceAt :: "string list \<Rightarrow> node \<Rightarrow> node \<Rightarrow> liberr + node" where
  "replaceAt [] v n = Inr v"
| "replaceAt (k # ks) v (NMap kvs) =
     (case map_of kvs (NString k) of
        None \<Rightarrow> Inl (ErrOther ''replace: path does not exist'')
      | Some child \<Rightarrow>
          (case replaceAt ks v child of
             Inl err \<Rightarrow> Inl err
           | Inr child' \<Rightarrow> Inr (NMap (setEntry (NString k) child' kvs))))"
| "replaceAt (k # ks) v n = Inl (ErrOther ''replace: path does not exist'')"

text \<open>
  Modelled from the spec: one operation on a document. The path of an operation starts
  with the root segment. \<^verbatim>\<open>Add\<close> at the root of the empty document makes the value the
  document.
\<close>

definition applyOperation :: "node option \<Rightarrow> Operation \<Rightarrow> liberr + node option" where
  "applyOperation doc op =
     (case Path op of
        [] \<Rightarrow> Inl (ErrOther ''malformed path'')
      | r # segs \<Rightarrow>
          if r \<noteq> [] then Inl (ErrOther ''malformed path'')
          else
            (case doc of
               None \<Rightarrow>
                 if Type op = OperationAdd \<and> segs = [] then Inr (Some (marshal (Value op)))
                 else Inl (ErrOther ''path does not exist'')
             | Some root \<Rightarrow>
                 (case (if Type op = OperationAdd then addAt segs (marshal (Value op)) root
                        else replaceAt segs (marshal (Value op)) root) of
                    Inl err \<Rightarrow> Inl err
                  | Inr root' \<Rightarrow> Inr (Some root'))))"

text \<open>Modelled from the spec: the operations of a patch are applied in order.\<close>

fun refApply :: "node option \<Rightarrow> Patch \<Rightarrow> liberr + node option" where
  "refApply doc [] = Inr doc"
| "refApply doc (op # ops) =
     (case applyOperation doc op of
        Inl err \<Rightarrow> Inl err
      | Inr doc' \<Rightarrow> refApply doc' ops)"

text \<open>
  Modelled from the spec: the four library functions together, as the parameter of the
  functions of config.go.
\<close>

definition refLib :: "(node option, string list, node) yamllib" where
  "refLib = \<lparr>PathString = refPathString, ReadNode = refReadNode,
             ParsePath = refParsePath, Apply = refApply\<rparr>"

section \<open>The merge as a sequence of steps\<close>

text \<open>
  The step order as the specification words it (\<section>4.7): version default, enable-append,
  disable-append, settings-merge, exclusion-rules-append, exclusion-paths-append,
  exclusion-paths-except-append. Each step maps the bytes to new bytes or fails;
  \<open>runSteps\<close> hands every step the output of the steps before it and stops at the first
  failure.
\<close>

definition specSteps :: "('d, 'p, 'n) yamllib \<Rightarrow> PluginConfig \<Rightarrow> ('d \<Rightarrow> error + 'd) list" where
  "specSteps L c =
     [versionDefault L,
      (\<lambda>b. applyAddYAMLSlicePatch L b ''/linters/enable'' (map GoString (Enable (Linters c)))),
      (\<lambda>b. applyAddYAMLSlicePatch L b ''/linters/disable'' (map GoString (Disable (Linters c)))),
      (\<lambda>b. applyAddOrSetYAMLMapPatch L b ''/linters/settings'' (Settings (Linters c))),
      (\<lambda>b. applyAddYAMLSlicePatch L b ''/linters/exclusions/rules''
              (map GoRule (Rules (Exclusions (Linters c))))),
      (\<lambda>b. applyAddYAMLSlicePatch L b ''/linters/exclusions/paths''
              (map GoString (Paths (Exclusions (Linters c))))),
      (\<lambda>b. applyAddYAMLSlicePatch L b ''/linters/exclusions/paths-except''
              (map GoString (PathsExcept (Exclusions (Linters c)))))]"

fun runSteps :: "('d \<Rightarrow> error + 'd) list \<Rightarrow> 'd \<Rightarrow> error + 'd" where
  "runSteps [] b = Inr b"
| "runSteps (step # steps) b =
     (case step b of
        Inl err \<Rightarrow> Inl err
      | Inr b' \<Rightarrow> runSteps steps b')"

text \<open>The Go pair a result is returned as: \<^verbatim>\<open>(nil, err)\<close> or \<^verbatim>\<open>(bytes, nil)\<close>.\<close>

definition goResult :: "error + 'd \<Rightarrow> 'd option \<times> error option" where
  "goResult r = (case r of Inl err \<Rightarrow> (None, Some err) | Inr b \<Rightarrow> (Some b, None))"

text \<open>The existence result of a check without the error's text: \<open>None\<close> is an error.\<close>

definition existence :: "error + bool \<Rightarrow> bool option" where
  "existence r = (case r of Inl err \<Rightarrow> None | Inr b \<Rightarrow> Some b)"

section \<open>Example inputs\<close>

text \<open>The document \<^verbatim>\<open>version: "2"\<close> and a document without a version.\<close>

definition docVersion2 :: "node option" where
  "docVersion2 = Some (NMap [(NString ''version'', NString ''2'')])"

definition docNoVersion :: "node option" where
  "docNoVersion = Some (NMap [(NString ''run'', NMap [(NString ''tests'', NNull)])])"

definition emptyConfig :: PluginConfig where
  "emptyConfig =
     \<lparr>Linters = \<lparr>Enable = [], Disable = [], Settings = [],
        Exclusions = \<lparr>Rules = [], Paths = [], PathsExcept = []\<rparr>\<rparr>\<rparr>"

definition enableConfig :: PluginConfig where
  "enableConfig =
     \<lparr>Linters = \<lparr>Enable = [''copyloopvar''], Disable = [], Settings = [],
        Exclusions = \<lparr>Rules = [], Paths = [], PathsExcept = []\<rparr>\<rparr>\<rparr>"

text \<open>
  A document whose \<open>linters\<close> mapping has the nested keys \<open>a\<close> and \<open>b\<close>, and a null
  version.
\<close>

definition docNested :: "node option" where
  "docNested =
     Some (NMap [(NString ''version'', NNull),
                 (NString ''linters'', NMap [(NString ''a'', NMap [(NString ''b'', NInt 1)])])])"

text \<open>The root node of \<open>docNested\<close>.\<close>

definition docNestedRoot :: node where
  "docNestedRoot =
     NMap [(NString ''version'', NNull),
           (NString ''linters'', NMap [(NString ''a'', NMap [(NString ''b'', NInt 1)])])]"

text \<open>The type assertion \<^verbatim>\<open>mapItem.Key.(string)\<close> succeeds on strings only.\<close>

fun keyIsString :: "goval \<Rightarrow> bool" where
  "keyIsString (GoString s) = True"
| "keyIsString k = False"

text \<open>
  An override configuration that enables one linter and whose settings map has the string
  key \<open>errcheck\<close> followed by the integer key 1.
\<close>

definition badKeyConfig :: PluginConfig where
  "badKeyConfig =
     \<lparr>Linters = \<lparr>Enable = [''copyloopvar''], Disable = [],
        Settings = [(GoString ''errcheck'', GoBool True), (GoInt 1, GoNil)],
        Exclusions = \<lparr>Rules = [], Paths = [], PathsExcept = []\<rparr>\<rparr>\<rparr>"

text \<open>
  The document \<open>docNoVersion\<close> after the version default and after the append of
  \<open>copyloopvar\<close> to \<open>/linters/enable\<close>.
\<close>

definition docVersioned :: "node option" where
  "docVersioned =
     Some (NMap [(NString ''run'', NMap [(NString ''tests'', NNull)]),
                 (NString ''version'', NString ''2'')])"

definition docEnabled :: "node option" where
  "docEnabled =
     Some (NMap [(NString ''run'', NMap [(NString ''tests'', NNull)]),
                 (NString ''version'', NString ''2''),
                 (NString ''linters'',
                  NMap [(NString ''enable'', NSeq [NString ''copyloopvar''])])])"

section \<open>Notions used to state the properties\<close>



text \<open>The path string of a list of segments: \<open>joinPath [a, b]\<close> is \<open>/a/b\<close>.\<close>

definition joinPath :: "string list \<Rightarrow> string" where
  "joinPath segs = concat (map ((@) ''/'') segs)"

text \<open>
  A segment that the two path syntaxes read alike: not empty, without a slash and
  without a dot.
\<close>

definition simpleSegment :: "string \<Rightarrow> bool" where
  "simpleSegment s = (s \<noteq> [] \<and> CHR ''/'' \<notin> set s \<and> CHR ''.'' \<notin> set s)"

text \<open>
  A plain segment: a name of letters, digits, hyphens and underscores that begins with a
  letter, as the names of linters and of their settings are. None of its characters has a
  meaning in the path syntax of either library.
\<close>

definition letter :: "char \<Rightarrow> bool" where
  "letter c = (c \<in> set ''abcdefghijklmnopqrstuvwxyzABCDEFGHIJKLMNOPQRSTUVWXYZ'')"

definition plainChar :: "char \<Rightarrow> bool" where
  "plainChar c = (letter c \<or> c \<in> set ''0123456789-_'')"

definition plainSegment :: "string \<Rightarrow> bool" where
  "plainSegment s = (s \<noteq> [] \<and> letter (hd s) \<and> list_all plainChar s)"

text \<open>A node that is a mapping.\<close>

fun isMapping :: "node \<Rightarrow> bool" where
  "isMapping (NMap kvs) = True"
| "isMapping n = False"

text \<open>The string of a key that is a string.\<close>

fun keyString :: "goval \<Rightarrow> string" where
  "keyString (GoString s) = s"
| "keyString k = []"

text \<open>
  The entry of a document mapping that an entry of the override mapping is written as,
  and the mapping after the entries of the override were set one after the other.
\<close>

definition overrideEntry :: "goval \<times> goval \<Rightarrow> node \<times> node" where
  "overrideEntry kv = (NString (keyString (fst kv)), marshal (snd kv))"

definition mergedEntries :: "(node \<times> node) list \<Rightarrow> (goval \<times> goval) list \<Rightarrow> (node \<times> node) list" where
  "mergedEntries kvs m =
     foldl (\<lambda>acc kv. setEntry (fst (overrideEntry kv)) (snd (overrideEntry kv)) acc) kvs m"

text \<open>
  A document with the list \<open>/linters/enable\<close> and the mapping \<open>/linters/settings\<close>, and
  an override settings mapping with one key of the document and one new key.
\<close>

definition docLinters :: node where
  "docLinters =
     NMap [(NString ''version'', NString ''2''),
           (NString ''linters'',
            NMap [(NString ''enable'', NSeq [NString ''compiles'']),
                  (NString ''settings'',
                   NMap [(NString ''custom'', NInt 1), (NString ''errcheck'', NInt 2)])])]"

definition overrideSettings :: "(goval \<times> goval) list" where
  "overrideSettings = [(GoString ''errcheck'', GoBool True), (GoString ''govet'', GoString ''x'')]"

text \<open>
  The mapping of the first case of \<^verbatim>\<open>Test_applyAddOrSetYAMLMapPatch\<close> ("creates path to
  map"), which is applied at \<open>/path/to/map\<close> to the empty document.
\<close>

definition testMapValue :: "(goval \<times> goval) list" where
  "testMapValue =
     [(GoString ''key-1'', GoString ''value-1''),
      (GoString ''key-2'', GoInt 2),
      (GoString ''key-3'', GoMap [(''inner-key-1'', GoString ''inner-value-1'')])]"

text \<open>
  A document whose settings mapping has the one key \<open>a\<close> with a nested mapping, and the
  same document after the key \<open>b\<close> was added to the nested mapping.
\<close>

definition docSettingA :: node where
  "docSettingA =
     NMap [(NString ''linters'',
            NMap [(NString ''settings'',
                   NMap [(NString ''a'', NMap [(NString ''x'', NInt 1)])])])]"

definition docSettingAB :: node where
  "docSettingAB =
     NMap [(NString ''linters'',
            NMap [(NString ''settings'',
                   NMap [(NString ''a'', NMap [(NString ''x'', NInt 1), (NString ''b'', NInt 2)])])])]"

section \<open>Properties\<close>

subsection \<open>Helper facts\<close>

lemma refLib_simps [simp]:
  "PathString refLib = refPathString" "ReadNode refLib = refReadNode"
  "ParsePath refLib = refParsePath" "Apply refLib = refApply"
  by (simp_all add: refLib_def)

lemma merge_as_steps:
  "MergePluginConfigWithConfig L b (Some c) = goResult (runSteps (specSteps L c) b)"
  by (simp add: MergePluginConfigWithConfig_def specSteps_def goResult_def split: sum.splits)

lemma merge_nil:
  "MergePluginConfigWithConfig L b None = goResult (versionDefault L b)"
  by (simp add: MergePluginConfigWithConfig_def goResult_def split: sum.splits)

lemma applyAddYAMLSlicePatch_empty: "applyAddYAMLSlicePatch L b p [] = Inr b"
  by (simp add: applyAddYAMLSlicePatch_def)

lemma applyAddOrSetYAMLMapPatch_empty: "applyAddOrSetYAMLMapPatch L b p [] = Inr b"
  by (simp add: applyAddOrSetYAMLMapPatch_def)

lemma versionDefault_present:
  "checkNodeExists L b ''/version'' = Inr True \<Longrightarrow> versionDefault L b = Inr b"
  by (simp add: versionDefault_def)

lemma versionDefault_absent:
  "checkNodeExists L b ''/version'' = Inr False \<Longrightarrow> ParsePath L ''/version'' = Inr vp \<Longrightarrow>
   versionDefault L b =
     (case Apply L b [\<lparr>Type = OperationAdd, Path = vp, Value = GoString ''2''\<rparr>] of
        Inl err \<Rightarrow> Inl (FailedToAddVersion (Lib err))
      | Inr applied \<Rightarrow> Inr applied)"
  by (simp add: versionDefault_def MustParsePath_def Wrapf_def split: sum.splits)

lemma check_version_docVersion2: "checkNodeExists refLib docVersion2 ''/version'' = Inr True"
  by code_simp

lemma check_version_docNoVersion: "checkNodeExists refLib docNoVersion ''/version'' = Inr False"
  by code_simp

lemma parse_version: "ParsePath refLib ''/version'' = Inr ['''', ''version'']"
  by code_simp

lemma add_version_docNoVersion:
  "Apply refLib docNoVersion
     [\<lparr>Type = OperationAdd, Path = ['''', ''version''], Value = GoString ''2''\<rparr>] =
   Inr (Some (NMap [(NString ''run'', NMap [(NString ''tests'', NNull)]),
                    (NString ''version'', NString ''2'')]))"
  by code_simp

lemma merge_enableConfig_value:
  "MergePluginConfigWithConfig refLib docNoVersion (Some enableConfig) =
     (Some (Some (NMap
       [(NString ''run'', NMap [(NString ''tests'', NNull)]),
        (NString ''version'', NString ''2''),
        (NString ''linters'',
         NMap [(NString ''enable'', NSeq [NString ''copyloopvar''])])])), None)"
  by code_simp

subsection \<open>The order of the merge steps\<close>

text \<open>
  C4. \<^verbatim>\<open>MergePluginConfigWithConfig\<close> with an override configuration runs the seven steps
  in the fixed order version default, enable-append, disable-append, settings-merge,
  exclusion-rules-append, exclusion-paths-append, exclusion-paths-except-append, each on
  the output of the steps before it; a step whose override field is empty returns the
  bytes it is given.
\<close>

theorem merge_step_order:
  "MergePluginConfigWithConfig L b (Some c) = goResult (runSteps (specSteps L c) b)
   \<and> length (specSteps L c) = 7
   \<and> (Enable (Linters c) = [] \<longrightarrow> (specSteps L c ! 1) x = Inr x)
   \<and> (Disable (Linters c) = [] \<longrightarrow> (specSteps L c ! 2) x = Inr x)
   \<and> (Settings (Linters c) = [] \<longrightarrow> (specSteps L c ! 3) x = Inr x)
   \<and> (Rules (Exclusions (Linters c)) = [] \<longrightarrow> (specSteps L c ! 4) x = Inr x)
   \<and> (Paths (Exclusions (Linters c)) = [] \<longrightarrow> (specSteps L c ! 5) x = Inr x)
   \<and> (PathsExcept (Exclusions (Linters c)) = [] \<longrightarrow> (specSteps L c ! 6) x = Inr x)"
  by (simp add: merge_as_steps)
    (simp add: specSteps_def applyAddYAMLSlicePatch_empty applyAddOrSetYAMLMapPatch_empty)

theorem merge_step_order_witness:
  "MergePluginConfigWithConfig refLib docNoVersion (Some enableConfig)
     = goResult (runSteps (specSteps refLib enableConfig) docNoVersion)
   \<and> goResult (runSteps (specSteps refLib enableConfig) docNoVersion) =
     (Some (Some (NMap
       [(NString ''run'', NMap [(NString ''tests'', NNull)]),
        (NString ''version'', NString ''2''),
        (NString ''linters'',
         NMap [(NString ''enable'', NSeq [NString ''copyloopvar''])])])), None)
   \<and> Enable (Linters emptyConfig) = []
   \<and> (specSteps refLib emptyConfig ! 1) docVersion2 = Inr docVersion2
   \<and> Disable (Linters emptyConfig) = []
   \<and> (specSteps refLib emptyConfig ! 2) docVersion2 = Inr docVersion2
   \<and> Settings (Linters emptyConfig) = []
   \<and> (specSteps refLib emptyConfig ! 3) docVersion2 = Inr docVersion2
   \<and> Rules (Exclusions (Linters emptyConfig)) = []
   \<and> (specSteps refLib emptyConfig ! 4) docVersion2 = Inr docVersion2
   \<and> Paths (Exclusions (Linters emptyConfig)) = []
   \<and> (specSteps refLib emptyConfig ! 5) docVersion2 = Inr docVersion2
   \<and> PathsExcept (Exclusions (Linters emptyConfig)) = []
   \<and> (specSteps refLib emptyConfig ! 6) docVersion2 = Inr docVersion2"
proof -
  from merge_step_order [of refLib docNoVersion enableConfig docVersion2]
    merge_enableConfig_value
  have 1: "MergePluginConfigWithConfig refLib docNoVersion (Some enableConfig)
     = goResult (runSteps (specSteps refLib enableConfig) docNoVersion)
   \<and> goResult (runSteps (specSteps refLib enableConfig) docNoVersion) =
     (Some (Some (NMap
       [(NString ''run'', NMap [(NString ''tests'', NNull)]),
        (NString ''version'', NString ''2''),
        (NString ''linters'',
         NMap [(NString ''enable'', NSeq [NString ''copyloopvar''])])])), None)"
    by simp
  have e: "Enable (Linters emptyConfig) = []" "Disable (Linters emptyConfig) = []"
    "Settings (Linters emptyConfig) = []" "Rules (Exclusions (Linters emptyConfig)) = []"
    "Paths (Exclusions (Linters emptyConfig)) = []"
    "PathsExcept (Exclusions (Linters emptyConfig)) = []"
    by (simp_all add: emptyConfig_def)
  from merge_step_order [of refLib docNoVersion emptyConfig docVersion2] e
  have 2: "(specSteps refLib emptyConfig ! 1) docVersion2 = Inr docVersion2"
    "(specSteps refLib emptyConfig ! 2) docVersion2 = Inr docVersion2"
    "(specSteps refLib emptyConfig ! 3) docVersion2 = Inr docVersion2"
    "(specSteps refLib emptyConfig ! 4) docVersion2 = Inr docVersion2"
    "(specSteps refLib emptyConfig ! 5) docVersion2 = Inr docVersion2"
    "(specSteps refLib emptyConfig ! 6) docVersion2 = Inr docVersion2"
    by blast+
  from 1 2 e show ?thesis by blast
qed

subsection \<open>An override configuration with every field empty\<close>

text \<open>
  C7. For an override configuration whose six fields are all empty, and for the nil
  configuration, the merge returns what version defaulting returns; when the document has
  a root-level version node, it returns the input bytes themselves.
\<close>

theorem merge_empty_override:
  assumes "Enable (Linters c) = []" and "Disable (Linters c) = []"
    and "Settings (Linters c) = []" and "Rules (Exclusions (Linters c)) = []"
    and "Paths (Exclusions (Linters c)) = []" and "PathsExcept (Exclusions (Linters c)) = []"
  shows "MergePluginConfigWithConfig L b (Some c) = goResult (versionDefault L b)
     \<and> MergePluginConfigWithConfig L b None = goResult (versionDefault L b)
     \<and> (checkNodeExists L b ''/version'' = Inr True \<longrightarrow>
          MergePluginConfigWithConfig L b (Some c) = (Some b, None)
          \<and> MergePluginConfigWithConfig L b None = (Some b, None))"
  using assms
  by (simp add: merge_as_steps merge_nil specSteps_def applyAddYAMLSlicePatch_empty
      applyAddOrSetYAMLMapPatch_empty versionDefault_present goResult_def split: sum.splits)

theorem merge_empty_override_witness:
  "Enable (Linters emptyConfig) = [] \<and> Disable (Linters emptyConfig) = []
   \<and> Settings (Linters emptyConfig) = [] \<and> Rules (Exclusions (Linters emptyConfig)) = []
   \<and> Paths (Exclusions (Linters emptyConfig)) = []
   \<and> PathsExcept (Exclusions (Linters emptyConfig)) = []
   \<and> checkNodeExists refLib docVersion2 ''/version'' = Inr True
   \<and> MergePluginConfigWithConfig refLib docVersion2 (Some emptyConfig) = (Some docVersion2, None)
   \<and> MergePluginConfigWithConfig refLib docVersion2 None = (Some docVersion2, None)"
proof -
  have e: "Enable (Linters emptyConfig) = []" "Disable (Linters emptyConfig) = []"
    "Settings (Linters emptyConfig) = []" "Rules (Exclusions (Linters emptyConfig)) = []"
    "Paths (Exclusions (Linters emptyConfig)) = []"
    "PathsExcept (Exclusions (Linters emptyConfig)) = []"
    by (simp_all add: emptyConfig_def)
  have v: "checkNodeExists refLib docVersion2 ''/version'' = Inr True"
    by (rule check_version_docVersion2)
  from merge_empty_override [OF e, of refLib docVersion2] v
  have "MergePluginConfigWithConfig refLib docVersion2 (Some emptyConfig) = (Some docVersion2, None)
    \<and> MergePluginConfigWithConfig refLib docVersion2 None = (Some docVersion2, None)"
    by blast
  with e v show ?thesis by blast
qed

subsection \<open>Paths are told apart by their converted form only\<close>

text \<open>
  C10. Two paths with the same converted string have the same existence result on every
  document (only the path named in an error differs). A key segment \<open>k1.k2\<close> converts to
  the same string as the two segments \<open>k1/k2\<close>, so both are checked as the nested path.
\<close>

theorem converted_path_decides_existence:
  "(yamlPatchPathToGoccyPathString p = yamlPatchPathToGoccyPathString q \<longrightarrow>
      existence (checkNodeExists L d p) = existence (checkNodeExists L d q))
   \<and> yamlPatchPathToGoccyPathString (p @ ''/'' @ k1 @ ''.'' @ k2)
       = yamlPatchPathToGoccyPathString (p @ ''/'' @ k1 @ ''/'' @ k2)
   \<and> existence (checkNodeExists L d (p @ ''/'' @ k1 @ ''.'' @ k2))
       = existence (checkNodeExists L d (p @ ''/'' @ k1 @ ''/'' @ k2))"
proof -
  have a: "yamlPatchPathToGoccyPathString x = yamlPatchPathToGoccyPathString y \<Longrightarrow>
      existence (checkNodeExists L d x) = existence (checkNodeExists L d y)" for x y
    by (simp add: checkNodeExists_def existence_def split: sum.splits)
  have ne1: "p @ ''/'' @ k1 @ ''.'' @ k2 \<noteq> ''/''"
    by (cases p; cases k1; simp)
  have ne2: "p @ ''/'' @ k1 @ ''/'' @ k2 \<noteq> ''/''"
    by (cases p; cases k1; simp)
  have b: "yamlPatchPathToGoccyPathString (p @ ''/'' @ k1 @ ''.'' @ k2)
       = yamlPatchPathToGoccyPathString (p @ ''/'' @ k1 @ ''/'' @ k2)"
    unfolding yamlPatchPathToGoccyPathString_def using ne1 ne2
    by (simp add: ReplaceAll_def)
  from a b show ?thesis by blast
qed

theorem converted_path_decides_existence_witness:
  "yamlPatchPathToGoccyPathString ''/linters/a.b'' = ''$.linters.a.b''
   \<and> yamlPatchPathToGoccyPathString ''/linters/a/b'' = ''$.linters.a.b''
   \<and> checkNodeExists refLib docNested ''/linters/a/b'' = Inr True
   \<and> existence (checkNodeExists refLib docNested ''/linters/a.b'') = Some True"
proof -
  have 1: "yamlPatchPathToGoccyPathString ''/linters/a.b'' = ''$.linters.a.b''"
    by code_simp
  have 2: "yamlPatchPathToGoccyPathString ''/linters/a/b'' = ''$.linters.a.b''"
    by code_simp
  have 3: "checkNodeExists refLib docNested ''/linters/a/b'' = Inr True"
    by code_simp
  from converted_path_decides_existence
         [of "''/linters/a.b''" "''/linters/a/b''" refLib docNested] 1 2
  have "existence (checkNodeExists refLib docNested ''/linters/a.b'')
      = existence (checkNodeExists refLib docNested ''/linters/a/b'')"
    by simp
  with 3 have 4: "existence (checkNodeExists refLib docNested ''/linters/a.b'') = Some True"
    by (simp add: existence_def)
  from 1 2 3 4 show ?thesis by blast
qed

subsection \<open>A settings key that is not a string\<close>

lemma checkNodeExists_Apply_update [simp]:
  "checkNodeExists (L\<lparr>Apply := f\<rparr>) d p = checkNodeExists L d p"
  by (simp add: checkNodeExists_def split: sum.splits)

lemma MustParsePath_Apply_update [simp]:
  "MustParsePath (L\<lparr>Apply := f\<rparr>) p = MustParsePath L p"
  by (simp add: MustParsePath_def)

lemma setMapLoop_Apply_update [simp]:
  "setMapLoop (L\<lparr>Apply := f\<rparr>) d p m idx acc = setMapLoop L d p m idx acc"
  by (induction m arbitrary: idx acc) (auto simp: Let_def split: goval.splits sum.splits)

lemma setMapLoop_fails:
  "(k, v) \<in> set m \<Longrightarrow> \<not> keyIsString k \<Longrightarrow> \<exists>e. setMapLoop L d p m idx acc = Inl e"
proof (induction m arbitrary: idx acc)
  case Nil
  then show ?case by simp
next
  case (Cons kv m)
  obtain k' v' where kv: "kv = (k', v')" by (cases kv)
  show ?case
  proof (cases "keyIsString k'")
    case False
    then show ?thesis using kv by (cases k') auto
  next
    case True
    then obtain s where s: "k' = GoString s" by (cases k') auto
    with Cons.prems True kv have "(k, v) \<in> set m" by auto
    from Cons.IH [OF this Cons.prems(2)] show ?thesis
      using kv s by (simp add: Let_def split: sum.splits)
  qed
qed

lemma setMapLoop_first_bad_key:
  assumes "\<not> keyIsString k"
    and "\<forall>kv \<in> set pre. \<exists>s. fst kv = GoString s
           \<and> (\<exists>ex. checkNodeExists L d (p @ ''/'' @ s) = Inr ex)
           \<and> (\<exists>pp. ParsePath L (p @ ''/'' @ s) = Inr pp)"
  shows "setMapLoop L d p (pre @ (k, v) # post) idx acc = Inl (MapKeyNotString k (idx + length pre))"
  using assms
proof (induction pre arbitrary: idx acc)
  case Nil
  then show ?case by (cases k) auto
next
  case (Cons kv pre)
  obtain k' v' where kv: "kv = (k', v')" by (cases kv)
  from Cons.prems(2) kv obtain s ex pp where s: "k' = GoString s"
    and ex: "checkNodeExists L d (p @ ''/'' @ s) = Inr ex"
    and pp: "ParsePath L (p @ ''/'' @ s) = Inr pp"
    by auto
  from Cons.prems(2) have rest: "\<forall>kv \<in> set pre. \<exists>s. fst kv = GoString s
           \<and> (\<exists>ex. checkNodeExists L d (p @ ''/'' @ s) = Inr ex)
           \<and> (\<exists>pp. ParsePath L (p @ ''/'' @ s) = Inr pp)"
    by simp
  show ?case
    using kv s ex pp Cons.IH [OF Cons.prems(1) rest]
    by (simp add: MustParsePath_def)
qed

lemma settings_step_fails:
  assumes "(k, v) \<in> set m" and "\<not> keyIsString k"
  shows "\<exists>e. applyAddOrSetYAMLMapPatch L d p m = Inl e"
proof -
  from assms(1) have ne: "m \<noteq> []" by auto
  from setMapLoop_fails [OF assms, of L d p 0 "[]"]
  obtain e where "setMapLoop L d p m 0 [] = Inl e" by blast
  with ne show ?thesis
    by (simp add: applyAddOrSetYAMLMapPatch_def createSetYAMLMapValuePatch_def)
qed

lemma merge_error_no_bytes:
  "snd (MergePluginConfigWithConfig L b cfg) \<noteq> None \<longrightarrow> fst (MergePluginConfigWithConfig L b cfg) = None"
  by (simp add: MergePluginConfigWithConfig_def split: sum.splits option.splits)

lemma merge_fails_on_bad_key:
  assumes "(k, v) \<in> set (Settings (Linters c))" and "\<not> keyIsString k"
  shows "\<exists>e. MergePluginConfigWithConfig L b (Some c) = (None, Some e)"
proof (cases "versionDefault L b")
  case (Inl e)
  then show ?thesis by (simp add: MergePluginConfigWithConfig_def)
next
  case b0: (Inr b0)
  show ?thesis
  proof (cases "applyAddYAMLSlicePatch L b0 ''/linters/enable''
                  (map GoString (Enable (Linters c)))")
    case (Inl e)
    with b0 show ?thesis by (simp add: MergePluginConfigWithConfig_def)
  next
    case b1: (Inr b1)
    show ?thesis
    proof (cases "applyAddYAMLSlicePatch L b1 ''/linters/disable''
                    (map GoString (Disable (Linters c)))")
      case (Inl e)
      with b0 b1 show ?thesis by (simp add: MergePluginConfigWithConfig_def)
    next
      case b2: (Inr b2)
      from settings_step_fails [OF assms, of L b2 "''/linters/settings''"]
      obtain e where "applyAddOrSetYAMLMapPatch L b2 ''/linters/settings''
                        (Settings (Linters c)) = Inl e"
        by blast
      with b0 b1 b2 show ?thesis by (simp add: MergePluginConfigWithConfig_def)
    qed
  qed
qed

text \<open>
  C8 (as amended). When the settings map has a key that is not a string, the merge never
  succeeds. When the keys before the first such key are strings whose existence checks
  and path parses succeed, the settings step fails with the error that names that key and
  its index, whatever the patch applier would do (no patch of the settings step is
  applied); the merge returns this error when the version default and the two steps before
  the settings step succeeded on their way. Whenever the merge returns an error it
  returns nil bytes.
\<close>

theorem invalid_settings_key:
  "(Settings (Linters c) = pre @ (k, v) # post \<and> \<not> keyIsString k
      \<and> (\<forall>kv \<in> set pre. \<exists>s. fst kv = GoString s
             \<and> (\<exists>ex. checkNodeExists L d (''/linters/settings'' @ ''/'' @ s) = Inr ex)
             \<and> (\<exists>pp. ParsePath L (''/linters/settings'' @ ''/'' @ s) = Inr pp))
    \<longrightarrow> (\<forall>f. applyAddOrSetYAMLMapPatch (L\<lparr>Apply := f\<rparr>) d ''/linters/settings''
                 (Settings (Linters c))
               = Inl (FailedToCreatePatch ''/linters/settings''
                        (MapKeyNotString k (length pre))))
        \<and> (runSteps (take 3 (specSteps L c)) b = Inr d \<longrightarrow>
             MergePluginConfigWithConfig L b (Some c)
               = (None, Some (FailedToCreatePatch ''/linters/settings''
                                (MapKeyNotString k (length pre))))))
   \<and> ((k, v) \<in> set (Settings (Linters c)) \<and> \<not> keyIsString k
    \<longrightarrow> (\<exists>e. MergePluginConfigWithConfig L b (Some c) = (None, Some e)))
   \<and> (snd (MergePluginConfigWithConfig L b cfg) \<noteq> None
    \<longrightarrow> fst (MergePluginConfigWithConfig L b cfg) = None)"
proof -
  have A: "applyAddOrSetYAMLMapPatch (L\<lparr>Apply := f\<rparr>) d ''/linters/settings''
                 (Settings (Linters c))
               = Inl (FailedToCreatePatch ''/linters/settings''
                        (MapKeyNotString k (length pre)))"
    if s: "Settings (Linters c) = pre @ (k, v) # post" and k: "\<not> keyIsString k"
      and pre: "\<forall>kv \<in> set pre. \<exists>s. fst kv = GoString s
             \<and> (\<exists>ex. checkNodeExists L d (''/linters/settings'' @ ''/'' @ s) = Inr ex)
             \<and> (\<exists>pp. ParsePath L (''/linters/settings'' @ ''/'' @ s) = Inr pp)"
    for f
    using setMapLoop_first_bad_key [OF k pre, of v post 0 "[]"] s
    by (simp add: applyAddOrSetYAMLMapPatch_def createSetYAMLMapValuePatch_def Wrapf_def)
  have B: "MergePluginConfigWithConfig L b (Some c)
               = (None, Some (FailedToCreatePatch ''/linters/settings''
                                (MapKeyNotString k (length pre))))"
    if s: "Settings (Linters c) = pre @ (k, v) # post" and k: "\<not> keyIsString k"
      and pre: "\<forall>kv \<in> set pre. \<exists>s. fst kv = GoString s
             \<and> (\<exists>ex. checkNodeExists L d (''/linters/settings'' @ ''/'' @ s) = Inr ex)
             \<and> (\<exists>pp. ParsePath L (''/linters/settings'' @ ''/'' @ s) = Inr pp)"
      and r: "runSteps (take 3 (specSteps L c)) b = Inr d"
  proof -
    from A [OF s k pre, of "Apply L"]
    have "applyAddOrSetYAMLMapPatch L d ''/linters/settings'' (Settings (Linters c))
               = Inl (FailedToCreatePatch ''/linters/settings''
                        (MapKeyNotString k (length pre)))"
      by simp
    moreover from r obtain b0 b1 where "versionDefault L b = Inr b0"
      and "applyAddYAMLSlicePatch L b0 ''/linters/enable''
             (map GoString (Enable (Linters c))) = Inr b1"
      and "applyAddYAMLSlicePatch L b1 ''/linters/disable''
             (map GoString (Disable (Linters c))) = Inr d"
      by (auto simp: specSteps_def split: sum.splits)
    ultimately show ?thesis
      by (simp add: MergePluginConfigWithConfig_def)
  qed
  from A B merge_fails_on_bad_key [of k v c L b] merge_error_no_bytes [of L b cfg]
  show ?thesis by blast
qed

theorem invalid_settings_key_witness:
  "Settings (Linters badKeyConfig) = [(GoString ''errcheck'', GoBool True)] @ (GoInt 1, GoNil) # []
   \<and> \<not> keyIsString (GoInt 1)
   \<and> checkNodeExists refLib docEnabled (''/linters/settings'' @ ''/'' @ ''errcheck'') = Inr False
   \<and> ParsePath refLib (''/linters/settings'' @ ''/'' @ ''errcheck'')
       = Inr ['''', ''linters'', ''settings'', ''errcheck'']
   \<and> runSteps (take 3 (specSteps refLib badKeyConfig)) docNoVersion = Inr docEnabled
   \<and> applyAddOrSetYAMLMapPatch (refLib\<lparr>Apply := (\<lambda>d p. Inl (ErrOther []))\<rparr>) docEnabled
         ''/linters/settings'' (Settings (Linters badKeyConfig))
       = Inl (FailedToCreatePatch ''/linters/settings'' (MapKeyNotString (GoInt 1) 1))
   \<and> MergePluginConfigWithConfig refLib docNoVersion (Some badKeyConfig)
       = (None, Some (FailedToCreatePatch ''/linters/settings'' (MapKeyNotString (GoInt 1) 1)))
   \<and> (GoInt 1, GoNil) \<in> set (Settings (Linters badKeyConfig))
   \<and> (\<exists>e. MergePluginConfigWithConfig refLib docVersion2 (Some badKeyConfig) = (None, Some e))
   \<and> snd (MergePluginConfigWithConfig refLib docNoVersion (Some badKeyConfig)) \<noteq> None
   \<and> fst (MergePluginConfigWithConfig refLib docNoVersion (Some badKeyConfig)) = None"
proof -
  have 1: "Settings (Linters badKeyConfig)
      = [(GoString ''errcheck'', GoBool True)] @ (GoInt 1, GoNil) # []"
    by (simp add: badKeyConfig_def)
  have 2: "\<not> keyIsString (GoInt 1)" by simp
  have 3: "checkNodeExists refLib docEnabled (''/linters/settings'' @ ''/'' @ ''errcheck'')
      = Inr False"
    by code_simp
  have 4: "ParsePath refLib (''/linters/settings'' @ ''/'' @ ''errcheck'')
       = Inr ['''', ''linters'', ''settings'', ''errcheck'']"
    by code_simp
  have 5: "runSteps (take 3 (specSteps refLib badKeyConfig)) docNoVersion = Inr docEnabled"
    by code_simp
  have pre: "\<forall>kv \<in> set [(GoString ''errcheck'', GoBool True)]. \<exists>s. fst kv = GoString s
             \<and> (\<exists>ex. checkNodeExists refLib docEnabled (''/linters/settings'' @ ''/'' @ s) = Inr ex)
             \<and> (\<exists>pp. ParsePath refLib (''/linters/settings'' @ ''/'' @ s) = Inr pp)"
    using 3 4 by auto
  from invalid_settings_key
         [of badKeyConfig "[(GoString ''errcheck'', GoBool True)]" "GoInt 1" GoNil "[]"
             refLib docEnabled docNoVersion] 1 2 pre 5
  have 6: "(\<forall>f. applyAddOrSetYAMLMapPatch (refLib\<lparr>Apply := f\<rparr>) docEnabled
                 ''/linters/settings'' (Settings (Linters badKeyConfig))
               = Inl (FailedToCreatePatch ''/linters/settings''
                        (MapKeyNotString (GoInt 1) (length [(GoString ''errcheck'', GoBool True)]))))
     \<and> MergePluginConfigWithConfig refLib docNoVersion (Some badKeyConfig)
       = (None, Some (FailedToCreatePatch ''/linters/settings''
                        (MapKeyNotString (GoInt 1) (length [(GoString ''errcheck'', GoBool True)]))))"
    by blast
  from 6 have 7: "applyAddOrSetYAMLMapPatch (refLib\<lparr>Apply := (\<lambda>d p. Inl (ErrOther []))\<rparr>)
         docEnabled ''/linters/settings'' (Settings (Linters badKeyConfig))
       = Inl (FailedToCreatePatch ''/linters/settings'' (MapKeyNotString (GoInt 1) 1))"
    by simp
  from 6 have 8: "MergePluginConfigWithConfig refLib docNoVersion (Some badKeyConfig)
       = (None, Some (FailedToCreatePatch ''/linters/settings'' (MapKeyNotString (GoInt 1) 1)))"
    by simp
  have 9: "(GoInt 1, GoNil) \<in> set (Settings (Linters badKeyConfig))"
    by (simp add: badKeyConfig_def)
  from invalid_settings_key [THEN conjunct2, THEN conjunct1, THEN mp, OF conjI [OF 9 2]]
  have 10: "\<exists>e. MergePluginConfigWithConfig refLib docVersion2 (Some badKeyConfig) = (None, Some e)" .
  from 8 have 11: "snd (MergePluginConfigWithConfig refLib docNoVersion (Some badKeyConfig)) \<noteq> None"
    by simp
  from invalid_settings_key [THEN conjunct2, THEN conjunct2, THEN mp, OF 11]
  have 12: "fst (MergePluginConfigWithConfig refLib docNoVersion (Some badKeyConfig)) = None" .
  from 1 2 3 4 5 7 8 9 10 11 12 show ?thesis by blast
qed

text \<open>
  The key error is not reported before any patch is attempted: on \<open>docNoVersion\<close> and
  \<open>badKeyConfig\<close> the version default and the enable-append have each applied a patch
  (their outputs differ from their inputs) before the merge reports the key that is not a
  string.
\<close>

theorem validation_before_any_patch_counterexample:
  "(GoInt 1, GoNil) \<in> set (Settings (Linters badKeyConfig))
   \<and> \<not> keyIsString (GoInt 1)
   \<and> versionDefault refLib docNoVersion = Inr docVersioned
   \<and> docVersioned \<noteq> docNoVersion
   \<and> applyAddYAMLSlicePatch refLib docVersioned ''/linters/enable''
         (map GoString (Enable (Linters badKeyConfig))) = Inr docEnabled
   \<and> docEnabled \<noteq> docVersioned
   \<and> MergePluginConfigWithConfig refLib docNoVersion (Some badKeyConfig)
       = (None, Some (FailedToCreatePatch ''/linters/settings'' (MapKeyNotString (GoInt 1) 1)))"
proof -
  have 1: "(GoInt 1, GoNil) \<in> set (Settings (Linters badKeyConfig))"
    by (simp add: badKeyConfig_def)
  have 2: "versionDefault refLib docNoVersion = Inr docVersioned"
    by code_simp
  have 3: "docVersioned \<noteq> docNoVersion"
    by (simp add: docVersioned_def docNoVersion_def)
  have 4: "applyAddYAMLSlicePatch refLib docVersioned ''/linters/enable''
         (map GoString (Enable (Linters badKeyConfig))) = Inr docEnabled"
    by code_simp
  have 5: "docEnabled \<noteq> docVersioned"
    by (simp add: docVersioned_def docEnabled_def)
  have 6: "MergePluginConfigWithConfig refLib docNoVersion (Some badKeyConfig)
       = (None, Some (FailedToCreatePatch ''/linters/settings'' (MapKeyNotString (GoInt 1) 1)))"
    by code_simp
  from 1 2 3 4 5 6 show ?thesis by simp
qed

subsection \<open>Synthesis of a missing path\<close>







lemma Split_not_Nil [simp]: "Split s sep \<noteq> []"
  by (induction s) (auto split: list.splits)

lemma append_single_fun: "(@) [c] = (#) c"
  by (rule ext) simp






subsection \<open>Paths of simple segments in the reference libraries\<close>

lemma Split_no_sep: "sep \<notin> set s \<Longrightarrow> Split s sep = [s]"
  by (induction s) auto

lemma Split_append_sep: "sep \<notin> set s \<Longrightarrow> Split (s @ sep # r) sep = s # Split r sep"
  by (induction s) auto

lemma Split_append_joined:
  "sep \<notin> set s \<Longrightarrow> \<forall>t \<in> set ss. sep \<notin> set t \<Longrightarrow>
   Split (s @ concat (map ((#) sep) ss)) sep = s # ss"
proof (induction ss arbitrary: s)
  case Nil
  then show ?case by (simp add: Split_no_sep)
next
  case (Cons t ts)
  then have "Split (t @ concat (map ((#) sep) ts)) sep = t # ts" by simp
  with Cons.prems(1) show ?case by (simp add: Split_append_sep)
qed

lemma joinPath_simps [simp]:
  "joinPath [] = []" "joinPath (s # ss) = CHR ''/'' # s @ joinPath ss"
  by (simp_all add: joinPath_def)

lemma joinPath_append: "joinPath (xs @ ys) = joinPath xs @ joinPath ys"
  by (simp add: joinPath_def)

lemma joinPath_conv: "joinPath segs = concat (map ((#) (CHR ''/'')) segs)"
  by (simp add: joinPath_def append_single_fun)

lemma Split_joinPath:
  assumes "\<forall>s \<in> set segs. CHR ''/'' \<notin> set s"
  shows "Split (joinPath segs) (CHR ''/'') = [] # segs"
  using Split_append_joined [of "CHR ''/''" "[]" segs] assms
  by (simp add: joinPath_conv)

lemma joinPath_not_root:
  assumes "segs \<noteq> []" and "\<forall>s \<in> set segs. simpleSegment s"
  shows "joinPath segs \<noteq> ''/''" and "joinPath segs \<noteq> []" and "hd (joinPath segs) = CHR ''/''"
  using assms by (cases segs; cases "hd segs"; auto simp: simpleSegment_def)+

lemma ReplaceAll_joinPath:
  assumes "\<forall>s \<in> set segs. CHR ''/'' \<notin> set s"
  shows "ReplaceAll (joinPath segs) (CHR ''/'') (CHR ''.'') = concat (map ((#) (CHR ''.'')) segs)"
  using assms
proof (induction segs)
  case Nil
  then show ?case by (simp add: ReplaceAll_def)
next
  case (Cons s ss)
  then have "CHR ''/'' \<notin> set s" by simp
  then have "map (\<lambda>c. if c = CHR ''/'' then CHR ''.'' else c) s = s"
    by (induction s) auto
  with Cons show ?case by (simp add: ReplaceAll_def)
qed

lemma conv_joinPath:
  assumes "segs \<noteq> []" and "\<forall>s \<in> set segs. simpleSegment s"
  shows "yamlPatchPathToGoccyPathString (joinPath segs)
       = CHR ''$'' # concat (map ((#) (CHR ''.'')) segs)"
  using joinPath_not_root(1) [OF assms] ReplaceAll_joinPath [of segs] assms(2)
  by (simp add: yamlPatchPathToGoccyPathString_def simpleSegment_def)

lemma refPathString_selectors:
  assumes "segs \<noteq> []" and "\<forall>s \<in> set segs. simpleSegment s"
  shows "refPathString (CHR ''$'' # concat (map ((#) (CHR ''.'')) segs)) = Inr segs"
proof -
  from assms(1) obtain s ss where segs: "segs = s # ss" by (cases segs) auto
  with assms(2) have "CHR ''.'' \<notin> set s" "\<forall>t \<in> set ss. CHR ''.'' \<notin> set t"
    by (simp_all add: simpleSegment_def)
  then have sp: "Split (s @ concat (map ((#) (CHR ''.'')) ss)) (CHR ''.'') = s # ss"
    by (rule Split_append_joined)
  from assms(2) segs have "[] \<notin> set (s # ss)"
    by (auto simp: simpleSegment_def)
  with sp segs show ?thesis by (simp add: refPathString_def)
qed

lemma refParsePath_joinPath:
  assumes "segs \<noteq> []" and "\<forall>s \<in> set segs. simpleSegment s"
  shows "refParsePath (joinPath segs) = Inr ([] # segs)"
proof -
  from assms(2) have "\<forall>s \<in> set segs. CHR ''/'' \<notin> set s" by (simp add: simpleSegment_def)
  from Split_joinPath [OF this] joinPath_not_root [OF assms] show ?thesis
    by (simp add: refParsePath_def)
qed

lemma readPath_error: "readPath segs root = Inl err \<Longrightarrow> err = ErrOther ''invalid query''"
  by (induction segs root rule: readPath.induct) (auto split: option.splits)

lemma checkNodeExists_refLib_joinPath:
  assumes "segs \<noteq> []" and "\<forall>s \<in> set segs. simpleSegment s"
  shows "checkNodeExists refLib doc (joinPath segs)
       = (case doc of
            None \<Rightarrow> Inr False
          | Some root \<Rightarrow>
              (case readPath segs root of
                 Inl err \<Rightarrow> Inl (FailedToReadNode (Lib err))
               | Inr None \<Rightarrow> Inr False
               | Inr (Some n) \<Rightarrow> Inr True))"
  using conv_joinPath [OF assms] refPathString_selectors [OF assms]
  by (auto simp: checkNodeExists_def refLib_def refReadNode_def
      split: option.splits sum.splits dest: readPath_error)

lemma readPath_found:
  "lookupNode segs root = Some n \<Longrightarrow> readPath segs root = Inr (Some n)"
proof (induction segs root rule: lookupNode.induct)
  case (2 s ss kvs)
  then show ?case by (simp split: option.splits)
qed simp_all

lemma readPath_mappings:
  "\<forall>i < length segs. \<forall>n. lookupNode (take i segs) root = Some n \<longrightarrow> isMapping n \<Longrightarrow>
   readPath segs root = Inr (lookupNode segs root)"
proof (induction segs arbitrary: root)
  case Nil
  then show ?case by simp
next
  case (Cons s ss)
  from Cons.prems [rule_format, of 0 root] obtain kvs where root: "root = NMap kvs"
    by (cases root) auto
  show ?case
  proof (cases "map_of kvs (NString s)")
    case None
    with root show ?thesis by simp
  next
    case (Some v)
    have "\<forall>i < length ss. \<forall>n. lookupNode (take i ss) v = Some n \<longrightarrow> isMapping n"
    proof (intro allI impI)
      fix i n assume "i < length ss" and "lookupNode (take i ss) v = Some n"
      with Cons.prems [rule_format, of "Suc i" n] root Some show "isMapping n" by simp
    qed
    from Cons.IH [OF this] root Some show ?thesis by simp
  qed
qed

lemma readPath_below_other:
  "i < length segs \<Longrightarrow> lookupNode (take i segs) root = Some n \<Longrightarrow> \<not> isMapping n \<Longrightarrow>
   readPath segs root = Inl (ErrOther ''invalid query'')"
proof (induction segs arbitrary: root i)
  case Nil
  then show ?case by simp
next
  case (Cons s ss)
  show ?case
  proof (cases i)
    case 0
    with Cons.prems have "\<not> isMapping root" by simp
    then show ?thesis by (cases root) simp_all
  next
    case (Suc j)
    with Cons.prems obtain kvs v where root: "root = NMap kvs"
      and v: "map_of kvs (NString s) = Some v"
      and sub: "lookupNode (take j ss) v = Some n"
      by (cases root) (auto split: option.splits)
    from Suc Cons.prems(1) have "j < length ss" by simp
    from Cons.IH [OF this sub Cons.prems(3)] root v show ?thesis by simp
  qed
qed

lemma checkNodeExists_refLib_found:
  assumes "segs \<noteq> []" and "\<forall>s \<in> set segs. simpleSegment s"
    and "lookupNode segs root = Some n"
  shows "checkNodeExists refLib (Some root) (joinPath segs) = Inr True"
  using checkNodeExists_refLib_joinPath [OF assms(1,2), of "Some root"]
    readPath_found [OF assms(3)]
  by simp

lemma readPath_key:
  "lookupNode segs root = Some (NMap kvs) \<Longrightarrow>
   readPath (segs @ [k]) root = Inr (map_of kvs (NString k))"
proof (induction segs root rule: lookupNode.induct)
  case (1 n)
  then show ?case by (simp split: option.splits)
next
  case (2 s ss kvs0)
  then show ?case by (simp split: option.splits)
qed simp_all

lemma checkNodeExists_refLib_key:
  assumes "segs \<noteq> []" and "\<forall>s \<in> set segs. simpleSegment s" and "simpleSegment k"
    and "lookupNode segs root = Some (NMap kvs)"
  shows "checkNodeExists refLib (Some root) (joinPath (segs @ [k]))
       = Inr (map_of kvs (NString k) \<noteq> None)"
proof -
  have simple: "\<forall>s \<in> set (segs @ [k]). simpleSegment s" using assms(2,3) by simp
  from checkNodeExists_refLib_joinPath [of "segs @ [k]" "Some root"] simple
    readPath_key [OF assms(4), of k]
  show ?thesis by (simp split: option.splits)
qed

lemma plainSegment_simple: "plainSegment s \<Longrightarrow> simpleSegment s"
proof -
  assume p: "plainSegment s"
  have "\<not> plainChar (CHR ''/'')" "\<not> plainChar (CHR ''.'')"
    by (simp_all add: plainChar_def letter_def)
  with p show ?thesis
    by (auto simp: plainSegment_def simpleSegment_def list_all_iff)
qed

subsection \<open>The node existence check\<close>

text \<open>
  C9 (as amended). \<^verbatim>\<open>checkNodeExists\<close> returns false when the read reports that no node
  was found (or returns the nil node) and true for every node that is read, a null node
  included; a converted path that the library rejects and every other failure of the read
  are returned as errors. With the reference libraries and a path of plain segments: on
  the empty document the result is false; on a document where no proper prefix of the
  path leads to a node that is not a mapping the result is whether the path leads to a
  node, so a path below absent parents is false and not an error; and where a proper
  prefix leads to a scalar, a null or a sequence the result is the error of the read.
\<close>

theorem checkNodeExists_result:
  "(PathString L (yamlPatchPathToGoccyPathString p) = Inr yp \<and> ReadNode L yp d = Inl ErrNotFoundNode
      \<longrightarrow> checkNodeExists L d p = Inr False)
   \<and> (PathString L (yamlPatchPathToGoccyPathString p) = Inr yp \<and> ReadNode L yp d = Inr (Some n)
      \<longrightarrow> checkNodeExists L d p = Inr True)
   \<and> (PathString L (yamlPatchPathToGoccyPathString p) = Inr yp \<and> ReadNode L yp d = Inr None
      \<longrightarrow> checkNodeExists L d p = Inr False)
   \<and> (PathString L (yamlPatchPathToGoccyPathString p) = Inl le
      \<longrightarrow> checkNodeExists L d p = Inl (FailedToParseYamlPath p (Lib le)))
   \<and> (PathString L (yamlPatchPathToGoccyPathString p) = Inr yp \<and> ReadNode L yp d = Inl le
        \<and> le \<noteq> ErrNotFoundNode
      \<longrightarrow> checkNodeExists L d p = Inl (FailedToReadNode (Lib le)))
   \<and> (segs \<noteq> [] \<and> (\<forall>s \<in> set segs. plainSegment s)
      \<longrightarrow> checkNodeExists refLib None (joinPath segs) = Inr False
        \<and> ((\<forall>i < length segs. \<forall>m. lookupNode (take i segs) root = Some m \<longrightarrow> isMapping m)
            \<longrightarrow> checkNodeExists refLib (Some root) (joinPath segs)
                  = Inr (lookupNode segs root \<noteq> None))
        \<and> (\<forall>i m. i < length segs \<and> lookupNode (take i segs) root = Some m \<and> \<not> isMapping m
            \<longrightarrow> checkNodeExists refLib (Some root) (joinPath segs)
                  = Inl (FailedToReadNode (Lib (ErrOther ''invalid query'')))))"
proof -
  have A: "PathString L (yamlPatchPathToGoccyPathString p) = Inr yp
        \<and> ReadNode L yp d = Inl ErrNotFoundNode
      \<longrightarrow> checkNodeExists L d p = Inr False"
    by (simp add: checkNodeExists_def)
  have B: "PathString L (yamlPatchPathToGoccyPathString p) = Inr yp
        \<and> ReadNode L yp d = Inr (Some n)
      \<longrightarrow> checkNodeExists L d p = Inr True"
    by (simp add: checkNodeExists_def)
  have C: "PathString L (yamlPatchPathToGoccyPathString p) = Inr yp \<and> ReadNode L yp d = Inr None
      \<longrightarrow> checkNodeExists L d p = Inr False"
    by (simp add: checkNodeExists_def)
  have D: "PathString L (yamlPatchPathToGoccyPathString p) = Inl le
      \<longrightarrow> checkNodeExists L d p = Inl (FailedToParseYamlPath p (Lib le))"
    by (simp add: checkNodeExists_def)
  have E: "PathString L (yamlPatchPathToGoccyPathString p) = Inr yp \<and> ReadNode L yp d = Inl le
        \<and> le \<noteq> ErrNotFoundNode
      \<longrightarrow> checkNodeExists L d p = Inl (FailedToReadNode (Lib le))"
    by (simp add: checkNodeExists_def)
  have F: "checkNodeExists refLib None (joinPath segs) = Inr False
        \<and> ((\<forall>i < length segs. \<forall>m. lookupNode (take i segs) root = Some m \<longrightarrow> isMapping m)
            \<longrightarrow> checkNodeExists refLib (Some root) (joinPath segs)
                  = Inr (lookupNode segs root \<noteq> None))
        \<and> (\<forall>i m. i < length segs \<and> lookupNode (take i segs) root = Some m \<and> \<not> isMapping m
            \<longrightarrow> checkNodeExists refLib (Some root) (joinPath segs)
                  = Inl (FailedToReadNode (Lib (ErrOther ''invalid query''))))"
    if ne: "segs \<noteq> []" and plain: "\<forall>s \<in> set segs. plainSegment s"
  proof -
    from plain have simple: "\<forall>s \<in> set segs. simpleSegment s"
      by (simp add: plainSegment_simple)
    note c = checkNodeExists_refLib_joinPath [OF ne simple]
    have 1: "checkNodeExists refLib None (joinPath segs) = Inr False"
      using c [of None] by simp
    have 2: "checkNodeExists refLib (Some root) (joinPath segs)
        = Inr (lookupNode segs root \<noteq> None)"
      if "\<forall>i < length segs. \<forall>m. lookupNode (take i segs) root = Some m \<longrightarrow> isMapping m"
      using c [of "Some root"] readPath_mappings [OF that]
      by (simp split: option.splits)
    have 3: "checkNodeExists refLib (Some root) (joinPath segs)
        = Inl (FailedToReadNode (Lib (ErrOther ''invalid query'')))"
      if "i < length segs" "lookupNode (take i segs) root = Some m" "\<not> isMapping m" for i m
      using c [of "Some root"] readPath_below_other [OF that] by simp
    from 1 2 3 show ?thesis by blast
  qed
  from A B C D E F show ?thesis by blast
qed

theorem checkNodeExists_result_witness:
  "PathString refLib (yamlPatchPathToGoccyPathString ''/linters/exclusions/rules'')
     = Inr [''linters'', ''exclusions'', ''rules'']
   \<and> ReadNode refLib [''linters'', ''exclusions'', ''rules''] docNested = Inl ErrNotFoundNode
   \<and> checkNodeExists refLib docNested ''/linters/exclusions/rules'' = Inr False
   \<and> PathString refLib (yamlPatchPathToGoccyPathString ''/version'') = Inr [''version'']
   \<and> ReadNode refLib [''version''] docNested = Inr (Some NNull)
   \<and> checkNodeExists refLib docNested ''/version'' = Inr True
   \<and> ReadNode (refLib\<lparr>ReadNode := (\<lambda>p d. Inr None)\<rparr>) [''version''] docNested = Inr None
   \<and> checkNodeExists (refLib\<lparr>ReadNode := (\<lambda>p d. Inr None)\<rparr>) docNested ''/version'' = Inr False
   \<and> PathString refLib (yamlPatchPathToGoccyPathString ''x'')
       = Inl (ErrOther ''invalid path string'')
   \<and> checkNodeExists refLib docNested ''x''
       = Inl (FailedToParseYamlPath ''x'' (Lib (ErrOther ''invalid path string'')))
   \<and> PathString refLib (yamlPatchPathToGoccyPathString ''/version/x'') = Inr [''version'', ''x'']
   \<and> ReadNode refLib [''version'', ''x''] docNested = Inl (ErrOther ''invalid query'')
   \<and> checkNodeExists refLib docNested ''/version/x''
       = Inl (FailedToReadNode (Lib (ErrOther ''invalid query'')))
   \<and> checkNodeExists refLib None ''/linters/a/b'' = Inr False
   \<and> lookupNode [''linters'', ''a'', ''b''] docNestedRoot = Some (NInt 1)
   \<and> checkNodeExists refLib (Some docNestedRoot) ''/linters/a/b'' = Inr True
   \<and> lookupNode [''linters'', ''x'', ''y''] docNestedRoot = None
   \<and> checkNodeExists refLib (Some docNestedRoot) ''/linters/x/y'' = Inr False
   \<and> lookupNode (take 3 [''linters'', ''a'', ''b'', ''c'']) docNestedRoot = Some (NInt 1)
   \<and> checkNodeExists refLib (Some docNestedRoot) ''/linters/a/b/c''
       = Inl (FailedToReadNode (Lib (ErrOther ''invalid query'')))"
proof -
  let ?nilLib = "refLib\<lparr>ReadNode := (\<lambda>p d. Inr None)\<rparr>"
  have 1: "PathString refLib (yamlPatchPathToGoccyPathString ''/linters/exclusions/rules'')
     = Inr [''linters'', ''exclusions'', ''rules'']"
    by code_simp
  have 2: "ReadNode refLib [''linters'', ''exclusions'', ''rules''] docNested
      = Inl ErrNotFoundNode"
    by code_simp
  have 3: "PathString refLib (yamlPatchPathToGoccyPathString ''/version'') = Inr [''version'']"
    by code_simp
  have 4: "ReadNode refLib [''version''] docNested = Inr (Some NNull)"
    by code_simp
  have 5: "PathString ?nilLib (yamlPatchPathToGoccyPathString ''/version'') = Inr [''version'']"
    using 3 by simp
  have 6: "ReadNode ?nilLib [''version''] docNested = Inr None"
    by simp
  have 7: "PathString refLib (yamlPatchPathToGoccyPathString ''x'')
       = Inl (ErrOther ''invalid path string'')"
    by code_simp
  have 8: "PathString refLib (yamlPatchPathToGoccyPathString ''/version/x'')
      = Inr [''version'', ''x'']"
    by code_simp
  have 9: "ReadNode refLib [''version'', ''x''] docNested = Inl (ErrOther ''invalid query'')"
    by code_simp
  have 10: "ErrOther ''invalid query'' \<noteq> ErrNotFoundNode" by simp
  note r = checkNodeExists_result
  from r [THEN conjunct1, THEN mp, OF conjI [OF 1 2]]
  have a: "checkNodeExists refLib docNested ''/linters/exclusions/rules'' = Inr False" .
  from r [THEN conjunct2, THEN conjunct1, THEN mp, OF conjI [OF 3 4]]
  have b: "checkNodeExists refLib docNested ''/version'' = Inr True" .
  from r [THEN conjunct2, THEN conjunct2, THEN conjunct1, THEN mp, OF conjI [OF 5 6]]
  have c: "checkNodeExists ?nilLib docNested ''/version'' = Inr False" .
  from r [THEN conjunct2, THEN conjunct2, THEN conjunct2, THEN conjunct1, THEN mp, OF 7]
  have d: "checkNodeExists refLib docNested ''x''
       = Inl (FailedToParseYamlPath ''x'' (Lib (ErrOther ''invalid path string'')))" .
  from r [THEN conjunct2, THEN conjunct2, THEN conjunct2, THEN conjunct2, THEN conjunct1,
      THEN mp, OF conjI [OF 8 conjI [OF 9 10]]]
  have e: "checkNodeExists refLib docNested ''/version/x''
       = Inl (FailedToReadNode (Lib (ErrOther ''invalid query'')))" .
  have plain3: "\<forall>s \<in> set [''linters'', ''a'', ''b'']. plainSegment s"
    by (simp add: plainSegment_def plainChar_def letter_def)
  have plainx: "\<forall>s \<in> set [''linters'', ''x'', ''y'']. plainSegment s"
    by (simp add: plainSegment_def plainChar_def letter_def)
  have plain4: "\<forall>s \<in> set [''linters'', ''a'', ''b'', ''c'']. plainSegment s"
    by (simp add: plainSegment_def plainChar_def letter_def)
  have j3: "joinPath [''linters'', ''a'', ''b''] = ''/linters/a/b''" by simp
  have jx: "joinPath [''linters'', ''x'', ''y''] = ''/linters/x/y''" by simp
  have j4: "joinPath [''linters'', ''a'', ''b'', ''c''] = ''/linters/a/b/c''" by simp
  have l3: "lookupNode [''linters'', ''a'', ''b''] docNestedRoot = Some (NInt 1)"
    by (simp add: docNestedRoot_def)
  have lx: "lookupNode [''linters'', ''x'', ''y''] docNestedRoot = None"
    by (simp add: docNestedRoot_def)
  have l4: "lookupNode (take 3 [''linters'', ''a'', ''b'', ''c'']) docNestedRoot = Some (NInt 1)"
    by (simp add: docNestedRoot_def)
  have m3: "\<forall>i < length [''linters'', ''a'', ''b''].
      \<forall>m. lookupNode (take i [''linters'', ''a'', ''b'']) docNestedRoot = Some m \<longrightarrow> isMapping m"
    by (simp add: docNestedRoot_def less_Suc_eq)
  have mx: "\<forall>i < length [''linters'', ''x'', ''y''].
      \<forall>m. lookupNode (take i [''linters'', ''x'', ''y'']) docNestedRoot = Some m \<longrightarrow> isMapping m"
    by (simp add: docNestedRoot_def less_Suc_eq)
  note s3 = r [where segs = "[''linters'', ''a'', ''b'']" and root = docNestedRoot,
      THEN conjunct2, THEN conjunct2, THEN conjunct2, THEN conjunct2, THEN conjunct2, THEN mp,
      OF conjI [OF _ plain3]]
  from s3 [THEN conjunct1] have f: "checkNodeExists refLib None ''/linters/a/b'' = Inr False"
    unfolding j3 by simp
  from s3 [THEN conjunct2, THEN conjunct1, THEN mp, OF _ m3] l3
  have g: "checkNodeExists refLib (Some docNestedRoot) ''/linters/a/b'' = Inr True"
    unfolding j3 by simp
  note sx = r [where segs = "[''linters'', ''x'', ''y'']" and root = docNestedRoot,
      THEN conjunct2, THEN conjunct2, THEN conjunct2, THEN conjunct2, THEN conjunct2, THEN mp,
      OF conjI [OF _ plainx]]
  from sx [THEN conjunct2, THEN conjunct1, THEN mp, OF _ mx] lx
  have h: "checkNodeExists refLib (Some docNestedRoot) ''/linters/x/y'' = Inr False"
    unfolding jx by simp
  note s4 = r [where segs = "[''linters'', ''a'', ''b'', ''c'']" and root = docNestedRoot,
      THEN conjunct2, THEN conjunct2, THEN conjunct2, THEN conjunct2, THEN conjunct2, THEN mp,
      OF conjI [OF _ plain4]]
  from s4 [THEN conjunct2, THEN conjunct2, rule_format, of 3 "NInt 1"] l4
  have k: "checkNodeExists refLib (Some docNestedRoot) ''/linters/a/b/c''
       = Inl (FailedToReadNode (Lib (ErrOther ''invalid query'')))"
    unfolding j4 by simp
  from 1 2 3 4 6 7 8 9 a b c d e f g h k l3 lx l4 show ?thesis by blast
qed

text \<open>
  The statement without the amendment fails: on a document that parses, for a path that
  converts to a well-formed path string, the check is an error when the path continues
  below a scalar (\<open>/linters/a/b\<close> is the integer 1) or below a null (\<open>/version\<close>).
\<close>

theorem checkNodeExists_counterexample:
  "refPathString (yamlPatchPathToGoccyPathString ''/linters/a/b/c'')
     = Inr [''linters'', ''a'', ''b'', ''c'']
   \<and> checkNodeExists refLib docNested ''/linters/a/b/c''
     = Inl (FailedToReadNode (Lib (ErrOther ''invalid query'')))
   \<and> refPathString (yamlPatchPathToGoccyPathString ''/version/x'') = Inr [''version'', ''x'']
   \<and> checkNodeExists refLib docNested ''/version/x''
     = Inl (FailedToReadNode (Lib (ErrOther ''invalid query'')))"
proof -
  have 1: "refPathString (yamlPatchPathToGoccyPathString ''/linters/a/b/c'')
     = Inr [''linters'', ''a'', ''b'', ''c'']"
    by code_simp
  have 2: "checkNodeExists refLib docNested ''/linters/a/b/c''
     = Inl (FailedToReadNode (Lib (ErrOther ''invalid query'')))"
    by code_simp
  have 3: "refPathString (yamlPatchPathToGoccyPathString ''/version/x'') = Inr [''version'', ''x'']"
    by code_simp
  have 4: "checkNodeExists refLib docNested ''/version/x''
     = Inl (FailedToReadNode (Lib (ErrOther ''invalid query'')))"
    by code_simp
  from 1 2 3 4 show ?thesis by simp
qed

subsection \<open>Operations of the reference applier at a node\<close>

lemma map_of_setEntry:
  "map_of (setEntry k v kvs) k' = (if k' = k then Some v else map_of kvs k')"
  by (induction kvs) auto

lemma setEntry_absent: "map_of kvs k = None \<Longrightarrow> setEntry k v kvs = kvs @ [(k, v)]"
  by (induction kvs) (auto split: if_splits)

lemma setEntry_not_Nil [simp]: "setEntry k v kvs \<noteq> []"
  by (cases kvs) simp_all

lemma addAt_snoc_map:
  "lookupNode segs root = Some (NMap kvs) \<Longrightarrow> kvs \<noteq> [] \<Longrightarrow> map_of kvs (NString k) = None \<Longrightarrow>
   \<exists>root'. addAt (segs @ [k]) v root = Inr root'
     \<and> lookupNode segs root' = Some (NMap (setEntry (NString k) v kvs))"
proof (induction segs arbitrary: root)
  case Nil
  then show ?case by (simp add: setEntry_absent)
next
  case (Cons s ss)
  from Cons.prems(1) obtain kvs0 child where root: "root = NMap kvs0"
    and child: "map_of kvs0 (NString s) = Some child"
    and sub: "lookupNode ss child = Some (NMap kvs)"
    by (cases root) (auto split: option.splits)
  from Cons.IH [OF sub Cons.prems(2,3)] obtain child'
    where a: "addAt (ss @ [k]) v child = Inr child'"
    and l: "lookupNode ss child' = Some (NMap (setEntry (NString k) v kvs))"
    by blast
  obtain x xs where x: "ss @ [k] = x # xs" by (cases "ss @ [k]") auto
  have "addAt ((s # ss) @ [k]) v root = Inr (NMap (setEntry (NString s) child' kvs0))"
    using root child a x by simp
  moreover have "lookupNode (s # ss) (NMap (setEntry (NString s) child' kvs0))
      = Some (NMap (setEntry (NString k) v kvs))"
    using l by (simp add: map_of_setEntry)
  ultimately show ?case by blast
qed

lemma replaceAt_snoc_map:
  "lookupNode segs root = Some (NMap kvs) \<Longrightarrow> map_of kvs (NString k) \<noteq> None \<Longrightarrow>
   \<exists>root'. replaceAt (segs @ [k]) v root = Inr root'
     \<and> lookupNode segs root' = Some (NMap (setEntry (NString k) v kvs))"
proof (induction segs arbitrary: root)
  case Nil
  then show ?case by auto
next
  case (Cons s ss)
  from Cons.prems obtain kvs0 child where root: "root = NMap kvs0"
    and child: "map_of kvs0 (NString s) = Some child"
    and sub: "lookupNode ss child = Some (NMap kvs)"
    by (cases root) (auto split: option.splits)
  from Cons.IH [OF sub Cons.prems(2)] obtain child'
    where a: "replaceAt (ss @ [k]) v child = Inr child'"
    and l: "lookupNode ss child' = Some (NMap (setEntry (NString k) v kvs))"
    by blast
  have "replaceAt ((s # ss) @ [k]) v root = Inr (NMap (setEntry (NString s) child' kvs0))"
    using root child a by simp
  moreover have "lookupNode (s # ss) (NMap (setEntry (NString s) child' kvs0))
      = Some (NMap (setEntry (NString k) v kvs))"
    using l by (simp add: map_of_setEntry)
  ultimately show ?case by blast
qed

lemma addAt_snoc_seq:
  "lookupNode segs root = Some (NSeq xs) \<Longrightarrow>
   \<exists>root'. addAt (segs @ [''-'']) v root = Inr root'
     \<and> lookupNode segs root' = Some (NSeq (xs @ [v]))"
proof (induction segs arbitrary: root)
  case Nil
  then show ?case by simp
next
  case (Cons s ss)
  from Cons.prems obtain kvs0 child where root: "root = NMap kvs0"
    and child: "map_of kvs0 (NString s) = Some child"
    and sub: "lookupNode ss child = Some (NSeq xs)"
    by (cases root) (auto split: option.splits)
  from Cons.IH [OF sub] obtain child' where a: "addAt (ss @ [''-'']) v child = Inr child'"
    and l: "lookupNode ss child' = Some (NSeq (xs @ [v]))"
    by blast
  obtain y ys where y: "ss @ [''-''] = y # ys" by (cases "ss @ [''-'']") auto
  have "addAt ((s # ss) @ [''-'']) v root = Inr (NMap (setEntry (NString s) child' kvs0))"
    using root child a y by simp
  moreover have "lookupNode (s # ss) (NMap (setEntry (NString s) child' kvs0))
      = Some (NSeq (xs @ [v]))"
    using l by (simp add: map_of_setEntry)
  ultimately show ?case by blast
qed

subsection \<open>List append\<close>

lemma refApply_appends:
  "lookupNode segs root = Some (NSeq ys) \<Longrightarrow>
   \<exists>root'. refApply (Some root)
              (map (\<lambda>x. \<lparr>Type = OperationAdd, Path = [] # segs @ [''-''], Value = x\<rparr>) xs)
            = Inr (Some root')
     \<and> lookupNode segs root' = Some (NSeq (ys @ map marshal xs))"
proof (induction xs arbitrary: root ys)
  case Nil
  then show ?case by simp
next
  case (Cons x xs)
  from addAt_snoc_seq [OF Cons.prems, of "marshal x"] obtain root1
    where a: "addAt (segs @ [''-'']) (marshal x) root = Inr root1"
    and l: "lookupNode segs root1 = Some (NSeq (ys @ [marshal x]))"
    by blast
  from Cons.IH [OF l] obtain root' where
    "refApply (Some root1)
       (map (\<lambda>x. \<lparr>Type = OperationAdd, Path = [] # segs @ [''-''], Value = x\<rparr>) xs)
     = Inr (Some root')"
    and "lookupNode segs root' = Some (NSeq ((ys @ [marshal x]) @ map marshal xs))"
    by blast
  with a show ?case by (simp add: applyOperation_def)
qed

lemma addSliceLoop_eq:
  "ParsePath L (p @ ''/-'') = Inr pa \<Longrightarrow>
   addSliceLoop L p xs acc
     = Inr (acc @ map (\<lambda>x. \<lparr>Type = OperationAdd, Path = pa, Value = x\<rparr>) xs)"
  by (induction xs arbitrary: acc) (simp_all add: MustParsePath_def)

lemma addOrSetYAMLPatch_exists:
  "ParsePath L p = Inr parsed \<Longrightarrow> 1 < length parsed \<Longrightarrow> checkNodeExists L d p = Inr True \<Longrightarrow>
   addOrSetYAMLPatch L d p sp v = Inr sp"
  by (simp add: addOrSetYAMLPatch_def)

lemma createAddYAMLSlicePatch_exists:
  assumes "xs \<noteq> []" and "ParsePath L (p @ ''/-'') = Inr pa"
    and "ParsePath L p = Inr parsed" and "1 < length parsed"
    and "checkNodeExists L d p = Inr True"
  shows "createAddYAMLSlicePatch L d p xs
       = Inr (map (\<lambda>x. \<lparr>Type = OperationAdd, Path = pa, Value = x\<rparr>) xs)"
  using assms(1) addSliceLoop_eq [OF assms(2), of xs "[]"]
    addOrSetYAMLPatch_exists [OF assms(3,4,5)]
  by (simp add: createAddYAMLSlicePatch_def)

lemma applyAddYAMLSlicePatch_exists:
  assumes "xs \<noteq> []" and "ParsePath L (p @ ''/-'') = Inr pa"
    and "ParsePath L p = Inr parsed" and "1 < length parsed"
    and "checkNodeExists L d p = Inr True"
  shows "applyAddYAMLSlicePatch L d p xs
       = (case Apply L d (map (\<lambda>x. \<lparr>Type = OperationAdd, Path = pa, Value = x\<rparr>) xs) of
            Inl err \<Rightarrow> Inl (FailedToApplyPatch p (Lib err))
          | Inr applied \<Rightarrow> Inr applied)"
  using createAddYAMLSlicePatch_exists [OF assms] assms(1)
  by (simp add: applyAddYAMLSlicePatch_def)

text \<open>
  C3. For an empty sequence \<^verbatim>\<open>applyAddYAMLSlicePatch\<close> returns the document unchanged.
  For a sequence that is not empty and a target that exists, the patch is one \<^verbatim>\<open>Add\<close>
  per element, in the order of the sequence, each at the append sentinel \<open>/-\<close> below the
  target, and this patch is what is applied. With the reference applier and a target that
  is a list, the list afterwards is the elements of the document followed by the elements
  of the sequence, none dropped and none merged.
\<close>

theorem list_append:
  "applyAddYAMLSlicePatch L d p [] = Inr d
   \<and> (xs \<noteq> [] \<and> ParsePath L (p @ ''/-'') = Inr pa \<and> ParsePath L p = Inr parsed
        \<and> 1 < length parsed \<and> checkNodeExists L d p = Inr True
      \<longrightarrow> createAddYAMLSlicePatch L d p xs
            = Inr (map (\<lambda>x. \<lparr>Type = OperationAdd, Path = pa, Value = x\<rparr>) xs)
          \<and> applyAddYAMLSlicePatch L d p xs
            = (case Apply L d (map (\<lambda>x. \<lparr>Type = OperationAdd, Path = pa, Value = x\<rparr>) xs) of
                 Inl err \<Rightarrow> Inl (FailedToApplyPatch p (Lib err))
               | Inr applied \<Rightarrow> Inr applied))
   \<and> (xs \<noteq> [] \<and> segs \<noteq> [] \<and> (\<forall>s \<in> set segs. simpleSegment s)
        \<and> lookupNode segs root = Some (NSeq ys)
      \<longrightarrow> ParsePath refLib (joinPath segs @ ''/-'') = Inr ([] # segs @ [''-''])
          \<and> (\<exists>root'. applyAddYAMLSlicePatch refLib (Some root) (joinPath segs) xs
                        = Inr (Some root')
                \<and> lookupNode segs root' = Some (NSeq (ys @ map marshal xs))))"
proof -
  have A: "applyAddYAMLSlicePatch L d p [] = Inr d"
    by (simp add: applyAddYAMLSlicePatch_def)
  have B: "createAddYAMLSlicePatch L d p xs
            = Inr (map (\<lambda>x. \<lparr>Type = OperationAdd, Path = pa, Value = x\<rparr>) xs)
          \<and> applyAddYAMLSlicePatch L d p xs
            = (case Apply L d (map (\<lambda>x. \<lparr>Type = OperationAdd, Path = pa, Value = x\<rparr>) xs) of
                 Inl err \<Rightarrow> Inl (FailedToApplyPatch p (Lib err))
               | Inr applied \<Rightarrow> Inr applied)"
    if "xs \<noteq> []" "ParsePath L (p @ ''/-'') = Inr pa" "ParsePath L p = Inr parsed"
      "1 < length parsed" "checkNodeExists L d p = Inr True"
    using createAddYAMLSlicePatch_exists [OF that] applyAddYAMLSlicePatch_exists [OF that]
    by simp
  have C: "ParsePath refLib (joinPath segs @ ''/-'') = Inr ([] # segs @ [''-''])
          \<and> (\<exists>root'. applyAddYAMLSlicePatch refLib (Some root) (joinPath segs) xs
                        = Inr (Some root')
                \<and> lookupNode segs root' = Some (NSeq (ys @ map marshal xs)))"
    if ne: "xs \<noteq> []" and segs: "segs \<noteq> []" "\<forall>s \<in> set segs. simpleSegment s"
      and seq: "lookupNode segs root = Some (NSeq ys)"
  proof -
    have dash: "joinPath segs @ ''/-'' = joinPath (segs @ [''-''])"
      by (simp add: joinPath_append)
    have "\<forall>s \<in> set (segs @ [''-'']). simpleSegment s"
      using segs(2) by (simp add: simpleSegment_def)
    then have pa: "ParsePath refLib (joinPath segs @ ''/-'') = Inr ([] # segs @ [''-''])"
      unfolding dash using refParsePath_joinPath [of "segs @ [''-'']"] by simp
    have parsed: "ParsePath refLib (joinPath segs) = Inr ([] # segs)"
      using refParsePath_joinPath [OF segs] by simp
    have ex: "checkNodeExists refLib (Some root) (joinPath segs) = Inr True"
      by (rule checkNodeExists_refLib_found [OF segs seq])
    from applyAddYAMLSlicePatch_exists [OF ne pa parsed _ ex] segs(1)
    have ap: "applyAddYAMLSlicePatch refLib (Some root) (joinPath segs) xs
        = (case refApply (Some root)
                  (map (\<lambda>x. \<lparr>Type = OperationAdd, Path = [] # segs @ [''-''], Value = x\<rparr>) xs) of
             Inl err \<Rightarrow> Inl (FailedToApplyPatch (joinPath segs) (Lib err))
           | Inr applied \<Rightarrow> Inr applied)"
      by simp
    from refApply_appends [OF seq, of xs] obtain root' where
      "refApply (Some root)
         (map (\<lambda>x. \<lparr>Type = OperationAdd, Path = [] # segs @ [''-''], Value = x\<rparr>) xs)
       = Inr (Some root')"
      and "lookupNode segs root' = Some (NSeq (ys @ map marshal xs))"
      by blast
    with ap pa show ?thesis by simp
  qed
  from A B C show ?thesis by blast
qed

theorem list_append_witness:
  "lookupNode [''linters'', ''enable''] docLinters = Some (NSeq [NString ''compiles''])
   \<and> ParsePath refLib (joinPath [''linters'', ''enable''] @ ''/-'')
       = Inr ['''', ''linters'', ''enable'', ''-'']
   \<and> createAddYAMLSlicePatch refLib (Some docLinters) ''/linters/enable''
         [GoString ''copyloopvar'', GoString ''compiles'']
       = Inr [\<lparr>Type = OperationAdd, Path = ['''', ''linters'', ''enable'', ''-''],
                Value = GoString ''copyloopvar''\<rparr>,
              \<lparr>Type = OperationAdd, Path = ['''', ''linters'', ''enable'', ''-''],
                Value = GoString ''compiles''\<rparr>]
   \<and> (\<exists>root'. applyAddYAMLSlicePatch refLib (Some docLinters) ''/linters/enable''
                  [GoString ''copyloopvar'', GoString ''compiles''] = Inr (Some root')
          \<and> lookupNode [''linters'', ''enable''] root'
              = Some (NSeq [NString ''compiles'', NString ''copyloopvar'', NString ''compiles'']))"
proof -
  let ?xs = "[GoString ''copyloopvar'', GoString ''compiles'']"
  let ?segs = "[''linters'', ''enable'']"
  have jp: "joinPath ?segs = ''/linters/enable''" by simp
  have simple: "\<forall>s \<in> set ?segs. simpleSegment s" by (simp add: simpleSegment_def)
  have seq: "lookupNode ?segs docLinters = Some (NSeq [NString ''compiles''])"
    by (simp add: docLinters_def)
  have pa: "ParsePath refLib (''/linters/enable'' @ ''/-'') = Inr ['''', ''linters'', ''enable'', ''-'']"
    by code_simp
  have parsed: "ParsePath refLib ''/linters/enable'' = Inr ['''', ''linters'', ''enable'']"
    by code_simp
  have ex: "checkNodeExists refLib (Some docLinters) ''/linters/enable'' = Inr True"
    by code_simp
  note t = list_append [where xs = ?xs]
  from t [THEN conjunct2, THEN conjunct1, THEN mp,
      of refLib "''/linters/enable''" "['''', ''linters'', ''enable'', ''-'']"
         "['''', ''linters'', ''enable'']" "Some docLinters"]
    pa parsed ex
  have 1: "createAddYAMLSlicePatch refLib (Some docLinters) ''/linters/enable'' ?xs
       = Inr [\<lparr>Type = OperationAdd, Path = ['''', ''linters'', ''enable'', ''-''],
                Value = GoString ''copyloopvar''\<rparr>,
              \<lparr>Type = OperationAdd, Path = ['''', ''linters'', ''enable'', ''-''],
                Value = GoString ''compiles''\<rparr>]"
    by simp
  from t [THEN conjunct2, THEN conjunct2, THEN mp,
      of ?segs docLinters "[NString ''compiles'']"] simple seq
  have 2: "\<exists>root'. applyAddYAMLSlicePatch refLib (Some docLinters) ''/linters/enable'' ?xs
                  = Inr (Some root')
          \<and> lookupNode ?segs root'
              = Some (NSeq [NString ''compiles'', NString ''copyloopvar'', NString ''compiles''])"
    by simp
  from seq pa 1 2 show ?thesis by (simp only: jp)
qed

subsection \<open>Map merge\<close>

lemma setMapLoop_eq:
  assumes "\<forall>kv \<in> set m. \<exists>s. fst kv = GoString s
             \<and> checkNodeExists L d (p @ ''/'' @ s) = Inr (ex s)
             \<and> ParsePath L (p @ ''/'' @ s) = Inr (pp s)"
  shows "setMapLoop L d p m idx acc
       = Inr (acc @ map (\<lambda>kv. \<lparr>Type = (if ex (keyString (fst kv)) then OperationReplace
                                          else OperationAdd),
                                  Path = pp (keyString (fst kv)), Value = snd kv\<rparr>) m)"
  using assms
proof (induction m arbitrary: idx acc)
  case Nil
  then show ?case by simp
next
  case (Cons kv m)
  obtain k v where kv: "kv = (k, v)" by (cases kv)
  from Cons.prems kv obtain s where s: "k = GoString s"
    and c: "checkNodeExists L d (p @ ''/'' @ s) = Inr (ex s)"
    and q: "ParsePath L (p @ ''/'' @ s) = Inr (pp s)"
    by auto
  from Cons.prems have rest: "\<forall>kv \<in> set m. \<exists>s. fst kv = GoString s
             \<and> checkNodeExists L d (p @ ''/'' @ s) = Inr (ex s)
             \<and> ParsePath L (p @ ''/'' @ s) = Inr (pp s)"
    by simp
  show ?case
    using kv s c q Cons.IH [OF rest] by (simp add: MustParsePath_def)
qed

lemma createSetYAMLMapValuePatch_exists:
  assumes "m \<noteq> []"
    and "\<forall>kv \<in> set m. \<exists>s. fst kv = GoString s
             \<and> checkNodeExists L d (p @ ''/'' @ s) = Inr (ex s)
             \<and> ParsePath L (p @ ''/'' @ s) = Inr (pp s)"
    and "ParsePath L p = Inr parsed" and "1 < length parsed"
    and "checkNodeExists L d p = Inr True"
  shows "createSetYAMLMapValuePatch L d p m
       = Inr (map (\<lambda>kv. \<lparr>Type = (if ex (keyString (fst kv)) then OperationReplace
                                    else OperationAdd),
                            Path = pp (keyString (fst kv)), Value = snd kv\<rparr>) m)"
  using assms(1) setMapLoop_eq [OF assms(2), of 0 "[]"]
    addOrSetYAMLPatch_exists [OF assms(3,4,5)]
  by (simp add: createSetYAMLMapValuePatch_def)

lemma applyAddOrSetYAMLMapPatch_exists:
  assumes "m \<noteq> []"
    and "\<forall>kv \<in> set m. \<exists>s. fst kv = GoString s
             \<and> checkNodeExists L d (p @ ''/'' @ s) = Inr (ex s)
             \<and> ParsePath L (p @ ''/'' @ s) = Inr (pp s)"
    and "ParsePath L p = Inr parsed" and "1 < length parsed"
    and "checkNodeExists L d p = Inr True"
  shows "applyAddOrSetYAMLMapPatch L d p m
       = (case Apply L d
                 (map (\<lambda>kv. \<lparr>Type = (if ex (keyString (fst kv)) then OperationReplace
                                       else OperationAdd),
                               Path = pp (keyString (fst kv)), Value = snd kv\<rparr>) m) of
            Inl err \<Rightarrow> Inl (FailedToApplyPatch p (Lib err))
          | Inr applied \<Rightarrow> Inr applied)"
  using createSetYAMLMapValuePatch_exists [OF assms] assms(1)
  by (simp add: applyAddOrSetYAMLMapPatch_def)

lemma refApply_map_ops:
  assumes "lookupNode segs root = Some (NMap kvs)" and "kvs \<noteq> []"
    and "distinct (map (\<lambda>kv. keyString (fst kv)) m)"
    and "\<forall>kv \<in> set m. (map_of kvs0 (NString (keyString (fst kv))) \<noteq> None)
                       = (map_of kvs (NString (keyString (fst kv))) \<noteq> None)"
  shows "\<exists>root'. refApply (Some root)
            (map (\<lambda>kv. \<lparr>Type = (if map_of kvs0 (NString (keyString (fst kv))) \<noteq> None
                                  then OperationReplace else OperationAdd),
                          Path = [] # segs @ [keyString (fst kv)], Value = snd kv\<rparr>) m)
          = Inr (Some root')
      \<and> lookupNode segs root' = Some (NMap (mergedEntries kvs m))"
  using assms
proof (induction m arbitrary: root kvs)
  case Nil
  then show ?case by (simp add: mergedEntries_def)
next
  case (Cons kv m)
  let ?k = "keyString (fst kv)"
  let ?op = "\<lparr>Type = (if map_of kvs0 (NString ?k) \<noteq> None then OperationReplace else OperationAdd),
              Path = [] # segs @ [?k], Value = snd kv\<rparr>"
  let ?kvs' = "setEntry (NString ?k) (marshal (snd kv)) kvs"
  from Cons.prems(4) have same: "(map_of kvs0 (NString ?k) \<noteq> None) = (map_of kvs (NString ?k) \<noteq> None)"
    by simp
  have "\<exists>root1. applyOperation (Some root) ?op = Inr (Some root1)
      \<and> lookupNode segs root1 = Some (NMap ?kvs')"
  proof (cases "map_of kvs0 (NString ?k) \<noteq> None")
    case True
    with same have "map_of kvs (NString ?k) \<noteq> None" by simp
    from replaceAt_snoc_map [OF Cons.prems(1) this, of "marshal (snd kv)"] True
    show ?thesis by (auto simp: applyOperation_def)
  next
    case False
    with same have "map_of kvs (NString ?k) = None" by simp
    from addAt_snoc_map [OF Cons.prems(1,2) this, of "marshal (snd kv)"] False
    show ?thesis by (auto simp: applyOperation_def)
  qed
  then obtain root1 where a: "applyOperation (Some root) ?op = Inr (Some root1)"
    and l: "lookupNode segs root1 = Some (NMap ?kvs')"
    by blast
  from Cons.prems(3) have dist: "distinct (map (\<lambda>kv. keyString (fst kv)) m)"
    and notin: "?k \<notin> (\<lambda>kv. keyString (fst kv)) ` set m"
    by simp_all
  have fresh: "\<forall>kv' \<in> set m. keyString (fst kv') \<noteq> ?k"
  proof (intro ballI notI)
    fix kv' assume "kv' \<in> set m" and eq: "keyString (fst kv') = ?k"
    from \<open>kv' \<in> set m\<close> have "keyString (fst kv') \<in> (\<lambda>kv. keyString (fst kv)) ` set m"
      by (rule imageI)
    with eq notin show False by simp
  qed
  have inv: "\<forall>kv' \<in> set m. (map_of kvs0 (NString (keyString (fst kv'))) \<noteq> None)
                       = (map_of ?kvs' (NString (keyString (fst kv'))) \<noteq> None)"
    using Cons.prems(4) fresh by (simp add: map_of_setEntry)
  from Cons.IH [OF l _ dist inv] obtain root' where
    "refApply (Some root1)
       (map (\<lambda>kv. \<lparr>Type = (if map_of kvs0 (NString (keyString (fst kv))) \<noteq> None
                             then OperationReplace else OperationAdd),
                     Path = [] # segs @ [keyString (fst kv)], Value = snd kv\<rparr>) m)
     = Inr (Some root')"
    and "lookupNode segs root' = Some (NMap (mergedEntries ?kvs' m))"
    by auto
  with a show ?case by (simp add: mergedEntries_def overrideEntry_def)
qed

lemma map_of_mergedEntries:
  "map_of (mergedEntries kvs m) k =
     (case map_of (rev (map overrideEntry m)) k of
        None \<Rightarrow> map_of kvs k
      | Some v \<Rightarrow> Some v)"
proof (induction m arbitrary: kvs)
  case Nil
  then show ?case by (simp add: mergedEntries_def)
next
  case (Cons kv m)
  have "mergedEntries kvs (kv # m)
      = mergedEntries (setEntry (fst (overrideEntry kv)) (snd (overrideEntry kv)) kvs) m"
    by (simp add: mergedEntries_def)
  with Cons [of "setEntry (fst (overrideEntry kv)) (snd (overrideEntry kv)) kvs"]
  show ?case
    by (cases "overrideEntry kv")
      (auto simp: map_of_setEntry map_add_def split: option.splits)
qed

lemma mergedEntries_absent_key:
  "k \<notin> fst ` overrideEntry ` set m \<Longrightarrow> map_of (mergedEntries kvs m) k = map_of kvs k"
proof -
  assume "k \<notin> fst ` overrideEntry ` set m"
  then have "map_of (rev (map overrideEntry m)) k = None"
    by (simp add: map_of_eq_None_iff image_image)
  then show ?thesis by (simp add: map_of_mergedEntries)
qed

lemma mergedEntries_override_key:
  assumes "distinct (map (\<lambda>kv. keyString (fst kv)) m)" and "kv \<in> set m"
  shows "map_of (mergedEntries kvs m) (NString (keyString (fst kv))) = Some (marshal (snd kv))"
proof -
  have "map fst (map overrideEntry m) = map NString (map (\<lambda>kv. keyString (fst kv)) m)"
    by (simp add: overrideEntry_def)
  moreover have "distinct (map NString (map (\<lambda>kv. keyString (fst kv)) m))"
    using assms(1) by (subst distinct_map) (simp add: inj_on_def)
  ultimately have "distinct (map fst (rev (map overrideEntry m)))"
    by (simp only: rev_map [symmetric] distinct_rev)
  moreover from assms(2) have "overrideEntry kv \<in> set (rev (map overrideEntry m))" by simp
  ultimately have "map_of (rev (map overrideEntry m)) (fst (overrideEntry kv))
      = Some (snd (overrideEntry kv))"
    by (intro map_of_is_SomeI) simp_all
  then show ?thesis by (simp add: map_of_mergedEntries overrideEntry_def)
qed

text \<open>
  C2 (as amended). For a mapping that is not empty, whose keys are strings, and a target
  that exists: when the existence check and the path parse of every \<open>path/key\<close> answer,
  the patch has one operation per key in the order of the mapping, \<^verbatim>\<open>Replace\<close> at
  \<open>path/key\<close> when the check of \<open>path/key\<close> on the input document is true and
  \<^verbatim>\<open>Add\<close> otherwise, with the value of the key; this patch is what is applied. With the
  reference libraries, a target of plain segments that is a mapping with at least one
  entry, and keys that are plain segments and distinct, the checks and parses answer
  (\<^verbatim>\<open>Replace\<close> exactly for the keys of the target), the patch is accepted, and the target
  afterwards is the mapping of the document with the entries of the override set one after
  the other: a key of the document that the override does not have keeps its value, and
  every key of the override has the override's value.
\<close>

theorem map_merge:
  "(m \<noteq> []
      \<and> (\<forall>kv \<in> set m. \<exists>s. fst kv = GoString s
             \<and> checkNodeExists L d (p @ ''/'' @ s) = Inr (ex s)
             \<and> ParsePath L (p @ ''/'' @ s) = Inr (pp s))
      \<and> ParsePath L p = Inr parsed \<and> 1 < length parsed
      \<and> checkNodeExists L d p = Inr True
    \<longrightarrow> createSetYAMLMapValuePatch L d p m
          = Inr (map (\<lambda>kv. \<lparr>Type = (if ex (keyString (fst kv)) then OperationReplace
                                       else OperationAdd),
                               Path = pp (keyString (fst kv)), Value = snd kv\<rparr>) m)
        \<and> applyAddOrSetYAMLMapPatch L d p m
          = (case Apply L d
                    (map (\<lambda>kv. \<lparr>Type = (if ex (keyString (fst kv)) then OperationReplace
                                          else OperationAdd),
                                  Path = pp (keyString (fst kv)), Value = snd kv\<rparr>) m) of
               Inl err \<Rightarrow> Inl (FailedToApplyPatch p (Lib err))
             | Inr applied \<Rightarrow> Inr applied))
   \<and> (m \<noteq> [] \<and> segs \<noteq> [] \<and> (\<forall>s \<in> set segs. plainSegment s)
      \<and> lookupNode segs root = Some (NMap kvs) \<and> kvs \<noteq> []
      \<and> (\<forall>kv \<in> set m. keyIsString (fst kv) \<and> plainSegment (keyString (fst kv)))
      \<and> distinct (map (\<lambda>kv. keyString (fst kv)) m)
    \<longrightarrow> createSetYAMLMapValuePatch refLib (Some root) (joinPath segs) m
          = Inr (map (\<lambda>kv. \<lparr>Type = (if map_of kvs (NString (keyString (fst kv))) \<noteq> None
                                       then OperationReplace else OperationAdd),
                               Path = [] # segs @ [keyString (fst kv)], Value = snd kv\<rparr>) m)
        \<and> (\<exists>root'. applyAddOrSetYAMLMapPatch refLib (Some root) (joinPath segs) m
                    = Inr (Some root')
            \<and> lookupNode segs root' = Some (NMap (mergedEntries kvs m)))
        \<and> (\<forall>k. k \<notin> fst ` overrideEntry ` set m
              \<longrightarrow> map_of (mergedEntries kvs m) k = map_of kvs k)
        \<and> (\<forall>kv \<in> set m. map_of (mergedEntries kvs m) (NString (keyString (fst kv)))
                            = Some (marshal (snd kv))))"
proof -
  have A: "createSetYAMLMapValuePatch L d p m
          = Inr (map (\<lambda>kv. \<lparr>Type = (if ex (keyString (fst kv)) then OperationReplace
                                       else OperationAdd),
                               Path = pp (keyString (fst kv)), Value = snd kv\<rparr>) m)
        \<and> applyAddOrSetYAMLMapPatch L d p m
          = (case Apply L d
                    (map (\<lambda>kv. \<lparr>Type = (if ex (keyString (fst kv)) then OperationReplace
                                          else OperationAdd),
                                  Path = pp (keyString (fst kv)), Value = snd kv\<rparr>) m) of
               Inl err \<Rightarrow> Inl (FailedToApplyPatch p (Lib err))
             | Inr applied \<Rightarrow> Inr applied)"
    if "m \<noteq> []"
      "\<forall>kv \<in> set m. \<exists>s. fst kv = GoString s
             \<and> checkNodeExists L d (p @ ''/'' @ s) = Inr (ex s)
             \<and> ParsePath L (p @ ''/'' @ s) = Inr (pp s)"
      "ParsePath L p = Inr parsed" "1 < length parsed" "checkNodeExists L d p = Inr True"
    using createSetYAMLMapValuePatch_exists [OF that] applyAddOrSetYAMLMapPatch_exists [OF that]
    by simp
  have B: "createSetYAMLMapValuePatch refLib (Some root) (joinPath segs) m
          = Inr (map (\<lambda>kv. \<lparr>Type = (if map_of kvs (NString (keyString (fst kv))) \<noteq> None
                                       then OperationReplace else OperationAdd),
                               Path = [] # segs @ [keyString (fst kv)], Value = snd kv\<rparr>) m)
        \<and> (\<exists>root'. applyAddOrSetYAMLMapPatch refLib (Some root) (joinPath segs) m
                    = Inr (Some root')
            \<and> lookupNode segs root' = Some (NMap (mergedEntries kvs m)))"
    if ne: "m \<noteq> []" and segs: "segs \<noteq> []" and plain: "\<forall>s \<in> set segs. plainSegment s"
      and tgt: "lookupNode segs root = Some (NMap kvs)" and kvs: "kvs \<noteq> []"
      and keys: "\<forall>kv \<in> set m. keyIsString (fst kv) \<and> plainSegment (keyString (fst kv))"
      and dist: "distinct (map (\<lambda>kv. keyString (fst kv)) m)"
  proof -
    let ?ex = "\<lambda>s. map_of kvs (NString s) \<noteq> None"
    let ?pp = "\<lambda>s. [] # segs @ [s]"
    from plain have simple: "\<forall>s \<in> set segs. simpleSegment s"
      by (simp add: plainSegment_simple)
    have key: "checkNodeExists refLib (Some root) (joinPath segs @ ''/'' @ s) = Inr (?ex s)
        \<and> ParsePath refLib (joinPath segs @ ''/'' @ s) = Inr (?pp s)"
      if s: "simpleSegment s" for s
    proof -
      have j: "joinPath segs @ ''/'' @ s = joinPath (segs @ [s])"
        by (simp add: joinPath_append)
      have "\<forall>t \<in> set (segs @ [s]). simpleSegment t" using simple s by simp
      with checkNodeExists_refLib_key [OF segs simple s tgt]
        refParsePath_joinPath [of "segs @ [s]"]
      show ?thesis unfolding j by simp
    qed
    have all: "\<forall>kv \<in> set m. \<exists>s. fst kv = GoString s
             \<and> checkNodeExists refLib (Some root) (joinPath segs @ ''/'' @ s) = Inr (?ex s)
             \<and> ParsePath refLib (joinPath segs @ ''/'' @ s) = Inr (?pp s)"
    proof
      fix kv assume "kv \<in> set m"
      with keys have ks: "keyIsString (fst kv)" and sk: "simpleSegment (keyString (fst kv))"
        by (auto simp: plainSegment_simple)
      from ks obtain s where s: "fst kv = GoString s" by (cases "fst kv") auto
      with sk key [of s] show "\<exists>s. fst kv = GoString s
             \<and> checkNodeExists refLib (Some root) (joinPath segs @ ''/'' @ s) = Inr (?ex s)
             \<and> ParsePath refLib (joinPath segs @ ''/'' @ s) = Inr (?pp s)"
        by simp
    qed
    have parsed: "ParsePath refLib (joinPath segs) = Inr ([] # segs)"
      using refParsePath_joinPath [OF segs simple] by simp
    have ex: "checkNodeExists refLib (Some root) (joinPath segs) = Inr True"
      by (rule checkNodeExists_refLib_found [OF segs simple tgt])
    from createSetYAMLMapValuePatch_exists [OF ne all parsed _ ex] segs
    have cr: "createSetYAMLMapValuePatch refLib (Some root) (joinPath segs) m
          = Inr (map (\<lambda>kv. \<lparr>Type = (if ?ex (keyString (fst kv)) then OperationReplace
                                       else OperationAdd),
                               Path = ?pp (keyString (fst kv)), Value = snd kv\<rparr>) m)"
      by simp
    from applyAddOrSetYAMLMapPatch_exists [OF ne all parsed _ ex] segs
    have ap: "applyAddOrSetYAMLMapPatch refLib (Some root) (joinPath segs) m
        = (case refApply (Some root)
                  (map (\<lambda>kv. \<lparr>Type = (if ?ex (keyString (fst kv)) then OperationReplace
                                        else OperationAdd),
                                Path = ?pp (keyString (fst kv)), Value = snd kv\<rparr>) m) of
             Inl err \<Rightarrow> Inl (FailedToApplyPatch (joinPath segs) (Lib err))
           | Inr applied \<Rightarrow> Inr applied)"
      by simp
    from refApply_map_ops [OF tgt kvs dist, of kvs] obtain root' where
      "refApply (Some root)
          (map (\<lambda>kv. \<lparr>Type = (if ?ex (keyString (fst kv)) then OperationReplace
                                else OperationAdd),
                        Path = ?pp (keyString (fst kv)), Value = snd kv\<rparr>) m)
        = Inr (Some root')"
      and "lookupNode segs root' = Some (NMap (mergedEntries kvs m))"
      by auto
    with ap cr show ?thesis by simp
  qed
  from A B mergedEntries_absent_key [of _ m kvs] mergedEntries_override_key [of m _ kvs]
  show ?thesis by blast
qed

theorem map_merge_witness:
  "lookupNode [''linters'', ''settings''] docLinters
     = Some (NMap [(NString ''custom'', NInt 1), (NString ''errcheck'', NInt 2)])
   \<and> checkNodeExists refLib (Some docLinters) ''/linters/settings/errcheck'' = Inr True
   \<and> checkNodeExists refLib (Some docLinters) ''/linters/settings/govet'' = Inr False
   \<and> createSetYAMLMapValuePatch refLib (Some docLinters) ''/linters/settings'' overrideSettings
     = Inr [\<lparr>Type = OperationReplace, Path = ['''', ''linters'', ''settings'', ''errcheck''],
              Value = GoBool True\<rparr>,
            \<lparr>Type = OperationAdd, Path = ['''', ''linters'', ''settings'', ''govet''],
              Value = GoString ''x''\<rparr>]
   \<and> (\<exists>root'. applyAddOrSetYAMLMapPatch refLib (Some docLinters) ''/linters/settings''
                  overrideSettings = Inr (Some root')
          \<and> lookupNode [''linters'', ''settings''] root'
              = Some (NMap [(NString ''custom'', NInt 1), (NString ''errcheck'', NBool True),
                            (NString ''govet'', NString ''x'')]))
   \<and> map_of (mergedEntries [(NString ''custom'', NInt 1), (NString ''errcheck'', NInt 2)]
                overrideSettings) (NString ''custom'') = Some (NInt 1)
   \<and> map_of (mergedEntries [(NString ''custom'', NInt 1), (NString ''errcheck'', NInt 2)]
                overrideSettings) (NString ''errcheck'') = Some (NBool True)"
proof -
  let ?segs = "[''linters'', ''settings'']"
  let ?kvs = "[(NString ''custom'', NInt 1), (NString ''errcheck'', NInt 2)]"
  let ?p = "''/linters/settings''"
  let ?ex = "\<lambda>s. s = ''errcheck''"
  let ?pp = "\<lambda>s. ['''', ''linters'', ''settings'', s]"
  have jp: "joinPath ?segs = ?p" by simp
  have ne: "overrideSettings \<noteq> []" by (simp add: overrideSettings_def)
  have plain: "\<forall>s \<in> set ?segs. plainSegment s"
    by (simp add: plainSegment_def plainChar_def letter_def)
  have tgt: "lookupNode ?segs docLinters = Some (NMap ?kvs)" by (simp add: docLinters_def)
  have kvs: "?kvs \<noteq> []" by simp
  have keys: "\<forall>kv \<in> set overrideSettings.
      keyIsString (fst kv) \<and> plainSegment (keyString (fst kv))"
    by (simp add: overrideSettings_def plainSegment_def plainChar_def letter_def)
  have dist: "distinct (map (\<lambda>kv. keyString (fst kv)) overrideSettings)"
    by (simp add: overrideSettings_def)
  have c1: "checkNodeExists refLib (Some docLinters) (?p @ ''/'' @ ''errcheck'') = Inr True"
    by code_simp
  have c2: "checkNodeExists refLib (Some docLinters) (?p @ ''/'' @ ''govet'') = Inr False"
    by code_simp
  have p1: "ParsePath refLib (?p @ ''/'' @ ''errcheck'') = Inr (?pp ''errcheck'')" by code_simp
  have p2: "ParsePath refLib (?p @ ''/'' @ ''govet'') = Inr (?pp ''govet'')" by code_simp
  have all: "\<forall>kv \<in> set overrideSettings. \<exists>s. fst kv = GoString s
             \<and> checkNodeExists refLib (Some docLinters) (?p @ ''/'' @ s) = Inr (?ex s)
             \<and> ParsePath refLib (?p @ ''/'' @ s) = Inr (?pp s)"
    using c1 c2 p1 p2 by (simp add: overrideSettings_def)
  have parsed: "ParsePath refLib ?p = Inr ['''', ''linters'', ''settings'']" by code_simp
  have ex: "checkNodeExists refLib (Some docLinters) ?p = Inr True" by code_simp
  have merged: "mergedEntries ?kvs overrideSettings
      = [(NString ''custom'', NInt 1), (NString ''errcheck'', NBool True),
         (NString ''govet'', NString ''x'')]"
    by (simp add: mergedEntries_def overrideSettings_def overrideEntry_def)
  note t = map_merge [where m = overrideSettings]
  from t [THEN conjunct1, THEN mp,
      of refLib "Some docLinters" ?p ?ex ?pp "['''', ''linters'', ''settings'']"]
    ne all parsed ex
  have 1: "createSetYAMLMapValuePatch refLib (Some docLinters) ?p overrideSettings
     = Inr [\<lparr>Type = OperationReplace, Path = ['''', ''linters'', ''settings'', ''errcheck''],
              Value = GoBool True\<rparr>,
            \<lparr>Type = OperationAdd, Path = ['''', ''linters'', ''settings'', ''govet''],
              Value = GoString ''x''\<rparr>]"
    by (simp add: overrideSettings_def)
  from t [THEN conjunct2, THEN mp, of ?segs docLinters ?kvs] ne plain tgt kvs keys dist
  have 2: "createSetYAMLMapValuePatch refLib (Some docLinters) (joinPath ?segs) overrideSettings
          = Inr (map (\<lambda>kv. \<lparr>Type = (if map_of ?kvs (NString (keyString (fst kv))) \<noteq> None
                                       then OperationReplace else OperationAdd),
                               Path = [] # ?segs @ [keyString (fst kv)], Value = snd kv\<rparr>)
                   overrideSettings)
        \<and> (\<exists>root'. applyAddOrSetYAMLMapPatch refLib (Some docLinters) (joinPath ?segs)
                  overrideSettings = Inr (Some root')
            \<and> lookupNode ?segs root' = Some (NMap (mergedEntries ?kvs overrideSettings)))
        \<and> (\<forall>k. k \<notin> fst ` overrideEntry ` set overrideSettings
              \<longrightarrow> map_of (mergedEntries ?kvs overrideSettings) k = map_of ?kvs k)
        \<and> (\<forall>kv \<in> set overrideSettings.
              map_of (mergedEntries ?kvs overrideSettings) (NString (keyString (fst kv)))
                = Some (marshal (snd kv)))"
    by blast
  from 2 have 3: "\<exists>root'. applyAddOrSetYAMLMapPatch refLib (Some docLinters) ?p
                  overrideSettings = Inr (Some root')
          \<and> lookupNode ?segs root'
              = Some (NMap [(NString ''custom'', NInt 1), (NString ''errcheck'', NBool True),
                            (NString ''govet'', NString ''x'')])"
    unfolding merged jp by blast
  have "NString ''custom'' \<notin> fst ` overrideEntry ` set overrideSettings"
    by (simp add: overrideSettings_def overrideEntry_def)
  with 2 have 4: "map_of (mergedEntries ?kvs overrideSettings) (NString ''custom'') = Some (NInt 1)"
    by simp
  have "(GoString ''errcheck'', GoBool True) \<in> set overrideSettings"
    by (simp add: overrideSettings_def)
  with 2 have 5: "map_of (mergedEntries ?kvs overrideSettings) (NString ''errcheck'')
      = Some (NBool True)"
    by fastforce
  from c1 c2 tgt 1 3 4 5 show ?thesis by simp
qed

text \<open>
  Without the restriction on the keys the statement fails. The key \<open>a/b\<close> is not a key
  of the document and \<open>a\<close> is not a key of the override, yet the merge succeeds and
  changes the value of \<open>a\<close>: the key is appended to the path unescaped and read as two
  segments. For the key \<open>a.x\<close> the existence check answers for the nested node
  \<open>a\<close>, \<open>x\<close>, so \<^verbatim>\<open>Replace\<close> is emitted for a key that the target does not have and
  the reference applier rejects the patch.
\<close>

theorem map_merge_counterexample:
  "lookupNode [''linters'', ''settings''] docSettingA
     = Some (NMap [(NString ''a'', NMap [(NString ''x'', NInt 1)])])
   \<and> GoString ''a'' \<noteq> GoString ''a/b''
   \<and> applyAddOrSetYAMLMapPatch refLib (Some docSettingA) ''/linters/settings''
         [(GoString ''a/b'', GoInt 2)] = Inr (Some docSettingAB)
   \<and> lookupNode [''linters'', ''settings''] docSettingAB
     = Some (NMap [(NString ''a'', NMap [(NString ''x'', NInt 1), (NString ''b'', NInt 2)])])
   \<and> lookupNode [''linters'', ''settings'', ''a.x''] docSettingA = None
   \<and> createSetYAMLMapValuePatch refLib (Some docSettingA) ''/linters/settings''
         [(GoString ''a.x'', GoInt 2)]
     = Inr [\<lparr>Type = OperationReplace, Path = [[], ''linters'', ''settings'', ''a.x''],
              Value = GoInt 2\<rparr>]
   \<and> applyAddOrSetYAMLMapPatch refLib (Some docSettingA) ''/linters/settings''
         [(GoString ''a.x'', GoInt 2)]
     = Inl (FailedToApplyPatch ''/linters/settings''
              (Lib (ErrOther ''replace: path does not exist'')))"
proof -
  have 1: "lookupNode [''linters'', ''settings''] docSettingA
     = Some (NMap [(NString ''a'', NMap [(NString ''x'', NInt 1)])])"
    by (simp add: docSettingA_def)
  have 2: "applyAddOrSetYAMLMapPatch refLib (Some docSettingA) ''/linters/settings''
         [(GoString ''a/b'', GoInt 2)] = Inr (Some docSettingAB)"
    by code_simp
  have 3: "lookupNode [''linters'', ''settings''] docSettingAB
     = Some (NMap [(NString ''a'', NMap [(NString ''x'', NInt 1), (NString ''b'', NInt 2)])])"
    by (simp add: docSettingAB_def)
  have 4: "lookupNode [''linters'', ''settings'', ''a.x''] docSettingA = None"
    by (simp add: docSettingA_def)
  have 5: "createSetYAMLMapValuePatch refLib (Some docSettingA) ''/linters/settings''
         [(GoString ''a.x'', GoInt 2)]
     = Inr [\<lparr>Type = OperationReplace, Path = [[], ''linters'', ''settings'', ''a.x''],
              Value = GoInt 2\<rparr>]"
    by code_simp
  have 6: "applyAddOrSetYAMLMapPatch refLib (Some docSettingA) ''/linters/settings''
         [(GoString ''a.x'', GoInt 2)]
     = Inl (FailedToApplyPatch ''/linters/settings''
              (Lib (ErrOther ''replace: path does not exist'')))"
    by code_simp
  from 1 2 3 4 5 6 show ?thesis by simp
qed

subsection \<open>Version defaulting on the empty document\<close>

text \<open>
  C5. On a document with a root mapping and no version node the merge adds
  \<open>version: "2"\<close>, also without an override configuration. On the empty document (no
  configuration asset; the bytes are nil) the version node is absent as well, but the
  \<^verbatim>\<open>Add\<close> of \<open>"2"\<close> at \<open>/version\<close> has no root mapping to add the key to and is
  rejected, and the merge returns the error and no document, with and without an override
  configuration. The path synthesis of \<^verbatim>\<open>addOrSetYAMLPatch\<close> does handle the empty
  document: it adds the wrapped value at the root, as the first case of
  \<^verbatim>\<open>Test_applyAddOrSetYAMLMapPatch\<close> expects.
\<close>

theorem version_default_empty_document:
  "checkNodeExists refLib docNoVersion ''/version'' = Inr False
   \<and> MergePluginConfigWithConfig refLib docNoVersion None = (Some docVersioned, None)
   \<and> checkNodeExists refLib None ''/version'' = Inr False
   \<and> versionDefault refLib None
     = Inl (FailedToAddVersion (Lib (ErrOther ''path does not exist'')))
   \<and> MergePluginConfigWithConfig refLib None None
     = (None, Some (FailedToAddVersion (Lib (ErrOther ''path does not exist''))))
   \<and> MergePluginConfigWithConfig refLib None (Some enableConfig)
     = (None, Some (FailedToAddVersion (Lib (ErrOther ''path does not exist''))))
   \<and> applyAddOrSetYAMLMapPatch refLib None ''/path/to/map'' testMapValue
     = Inr (Some (NMap [(NString ''path'',
              NMap [(NString ''to'',
                NMap [(NString ''map'',
                  NMap [(NString ''key-1'', NString ''value-1''),
                        (NString ''key-2'', NInt 2),
                        (NString ''key-3'',
                         NMap [(NString ''inner-key-1'', NString ''inner-value-1'')])])])])]))"
proof -
  have 1: "checkNodeExists refLib None ''/version'' = Inr False"
    by code_simp
  have 2: "versionDefault refLib None
     = Inl (FailedToAddVersion (Lib (ErrOther ''path does not exist'')))"
    by code_simp
  from 2 have 3: "MergePluginConfigWithConfig refLib None None
     = (None, Some (FailedToAddVersion (Lib (ErrOther ''path does not exist''))))"
    by (simp add: merge_nil goResult_def)
  from 2 have 4: "MergePluginConfigWithConfig refLib None (Some enableConfig)
     = (None, Some (FailedToAddVersion (Lib (ErrOther ''path does not exist''))))"
    by (simp add: merge_as_steps specSteps_def goResult_def)
  have 5: "applyAddOrSetYAMLMapPatch refLib None ''/path/to/map'' testMapValue
     = Inr (Some (NMap [(NString ''path'',
              NMap [(NString ''to'',
                NMap [(NString ''map'',
                  NMap [(NString ''key-1'', NString ''value-1''),
                        (NString ''key-2'', NInt 2),
                        (NString ''key-3'',
                         NMap [(NString ''inner-key-1'', NString ''inner-value-1'')])])])])]))"
    by code_simp
  from versionDefault_absent [OF check_version_docNoVersion parse_version]
    add_version_docNoVersion
  have 6: "MergePluginConfigWithConfig refLib docNoVersion None = (Some docVersioned, None)"
    by (simp add: merge_nil goResult_def docVersioned_def)
  from 1 2 3 4 5 6 check_version_docNoVersion show ?thesis by simp
qed

end
